theory Spec2Isabelle
  imports Main "HOL-Library.AList"
begin

section \<open>JavaScript values and thrown errors\<close>

text \<open>
  The storage provider \<^verbatim>\<open>CosmosDbStorage\<close> (botbuilder-azure,
  \<^verbatim>\<open>cosmosDbStorage.ts\<close>) keeps JSON objects under string keys in an
  Azure Cosmos DB container. The property values of a stored item are arbitrary JSON;
  the code never looks inside them.
\<close>

datatype json =
    JNull
  | JBool bool
  | JNum int
  | JStr string
  | JArr "json list"
  | JObj "(string \<times> json) list"

text \<open>
  What a \<^verbatim>\<open>catch (err)\<close> can receive: an instance of \<^verbatim>\<open>Error\<close>
  (its message, its \<^verbatim>\<open>code\<close> and its \<^verbatim>\<open>original\<close> property),
  a plain object such as the HTTP-like responses of the client library (its properties),
  or a string. \<^verbatim>\<open>err.original = err\<close> makes an error its own original;
  a datatype cannot be cyclic, so that case has a constructor of its own.
\<close>

datatype thrown =
    Err string "json option" original
  | Response "(string \<times> json) list"
  | Text string
and original =
    NoOriginal
  | Itself
  | Cause thrown

text \<open>
  Functions the code calls and the repository's sources do not hold: the key escaping
  helper (\<^verbatim>\<open>CosmosDbKeyEscape.escapeKey\<close>), the JavaScript built-ins
  \<^verbatim>\<open>JSON.stringify\<close> and \<^verbatim>\<open>JSON.parse(body).message\<close>,
  the messages of the engine's \<^verbatim>\<open>TypeError\<close> for reading a property of
  \<^verbatim>\<open>null\<close> or of \<^verbatim>\<open>undefined\<close>, and the connection
  policy that \<^verbatim>\<open>new DocumentBase.ConnectionPolicy()\<close> builds. They are
  parameters of the model. \<^verbatim>\<open>JSON.parse(body).message\<close> can throw: a
  \<^verbatim>\<open>SyntaxError\<close> when the body is not JSON text, a
  \<^verbatim>\<open>TypeError\<close> when it is the text \<^verbatim>\<open>null\<close>. Its result
  is \<open>Inl\<close> of what is thrown, or \<open>Inr\<close> of the message property
  (\<open>None\<close> is \<^verbatim>\<open>undefined\<close>).
\<close>

type_synonym ConnectionPolicy = "(string \<times> json) list"

record lib =
  escapeKey :: "string \<Rightarrow> string"
  JSON_stringify :: "json \<Rightarrow> string"
  JSON_parse_message :: "json \<Rightarrow> thrown + json option"
  nullPropertyMessage :: "string \<Rightarrow> string"
  undefinedPropertyMessage :: "string \<Rightarrow> string"
  newConnectionPolicy :: ConnectionPolicy

text \<open>JavaScript truthiness of a property value (\<open>None\<close>: the property is undefined).\<close>

fun truthy :: "json option \<Rightarrow> bool" where
  "truthy None = False"
| "truthy (Some JNull) = False"
| "truthy (Some (JBool b)) = b"
| "truthy (Some (JNum n)) = (n \<noteq> 0)"
| "truthy (Some (JStr s)) = (s \<noteq> [])"
| "truthy (Some (JArr xs)) = True"
| "truthy (Some (JObj fs)) = True"

text \<open>\<^verbatim>\<open>err.code\<close>.\<close>

fun err_code :: "thrown \<Rightarrow> json option" where
  "err_code (Err m c orig) = c"
| "err_code (Response fs) = map_of fs ''code''"
| "err_code (Text s) = None"

text \<open>
  \<^verbatim>\<open>errWithNewMessage(err, message)\<close>: the three branches of the source.
  An \<^verbatim>\<open>Error\<close> instance is changed in place (its message is stringified
  and prefixed, it becomes its own original); a value with a truthy
  \<^verbatim>\<open>body\<close> has its body parsed, and gives a new error whose message and
  code are the parsed body's message; any other value gives a new error around its JSON
  text. The result is \<open>Inr\<close> of the error returned, or \<open>Inl\<close> of what the
  function itself throws, which is what parsing the body throws.
  \<^verbatim>\<open>err.original = original || err\<close> keeps the value given unless it
  is falsy; of the values a \<^verbatim>\<open>catch\<close> receives here only the empty string
  is, and then the new error is its own original.
\<close>

fun errWithNewMessage :: "lib \<Rightarrow> thrown \<Rightarrow> string \<Rightarrow> thrown + thrown" where
  "errWithNewMessage L (Err m c orig) message =
     Inr (Err (message @ '': '' @ JSON_stringify L (JStr m)) c Itself)"
| "errWithNewMessage L (Response fs) message =
     (if truthy (map_of fs ''body'')
      then (case map_of fs ''body'' of
              None \<Rightarrow> Inr (Err (message @ '': '' @ JSON_stringify L (JObj fs)) None (Cause (Response fs)))
            | Some body \<Rightarrow>
                (case JSON_parse_message L body of
                   Inl e \<Rightarrow> Inl e
                 | Inr parsedMessage \<Rightarrow>
                     Inr (Err (message @ '': '' @
                                (case parsedMessage of None \<Rightarrow> [] | Some j \<Rightarrow> JSON_stringify L j))
                              parsedMessage (Cause (Response fs)))))
      else Inr (Err (message @ '': '' @ JSON_stringify L (JObj fs)) None (Cause (Response fs))))"
| "errWithNewMessage L (Text s) message =
     Inr (Err (message @ '': '' @ JSON_stringify L (JStr s)) None
            (if s = [] then Itself else Cause (Text s)))"

text \<open>
  \<^verbatim>\<open>throw this.errWithNewMessage(err, message)\<close>: the value thrown is the
  error returned, or what \<^verbatim>\<open>errWithNewMessage\<close> itself throws.
\<close>

definition throwWithNewMessage :: "lib \<Rightarrow> thrown \<Rightarrow> string \<Rightarrow> thrown" where
  "throwWithNewMessage L err message =
     (case errWithNewMessage L err message of Inl e \<Rightarrow> e | Inr e \<Rightarrow> e)"

text \<open>\<^verbatim>\<open>new Error(message)\<close>.\<close>

definition newError :: "string \<Rightarrow> thrown" where
  "newError m = Err m None NoOriginal"

text \<open>
  The \<^verbatim>\<open>TypeError\<close> of reading property \<open>p\<close> of
  \<^verbatim>\<open>null\<close>, and of \<^verbatim>\<open>undefined\<close>; the message is the
  engine's.
\<close>

definition nullPropertyError :: "lib \<Rightarrow> string \<Rightarrow> thrown" where
  "nullPropertyError L p = Err (nullPropertyMessage L p) None NoOriginal"

definition undefinedPropertyError :: "lib \<Rightarrow> string \<Rightarrow> thrown" where
  "undefinedPropertyError L p = Err (undefinedPropertyMessage L p) None NoOriginal"

section \<open>Settings and the constructor\<close>

text \<open>
  Objects live in heaps: a list of objects, an object's address is its index, and
  allocation appends. \<^verbatim>\<open>CosmosDbStorageSettings\<close> follows the
  interface of the source; a missing (undefined or null) property is \<open>None\<close>.
  The two request option objects are held by reference.
\<close>

type_synonym addr = nat

record CosmosDbStorageSettings =
  serviceEndpoint :: "string option"
  authKey :: "string option"
  databaseId :: "string option"
  collectionId :: "string option"
  partitionKey :: "string option"
  partitionValue :: "string option"
  databaseCreationRequestOptions :: "addr option"
  documentCollectionRequestOptions :: "addr option"

record CosmosClientOptions =
  masterKey :: string
  endpoint :: string
  connectionPolicy :: ConnectionPolicy

datatype Database = DatabaseHandle string

datatype Container = ContainerHandle Database string

record CosmosDbStorage =
  settings :: addr
  client :: CosmosClientOptions
  container :: "Container option"
  database :: "Database option"
  documentCollectionCreationRequestOption :: "addr option"
  databaseCreationRequestOption :: "addr option"

text \<open>\<^verbatim>\<open>String.prototype.trim\<close> on strings of Latin-1 code units.\<close>

definition whitespace :: "char \<Rightarrow> bool" where
  "whitespace c = (of_char c \<in> {9, 10, 11, 12, 13, 32, 160 :: nat})"

definition trim :: "string \<Rightarrow> string" where
  "trim s = rev (dropWhile whitespace (rev (dropWhile whitespace s)))"

text \<open>\<^verbatim>\<open>!s || s.trim() === ''\<close> for a property that should be a string.\<close>

definition missing :: "string option \<Rightarrow> bool" where
  "missing v = (case v of None \<Rightarrow> True | Some s \<Rightarrow> s = [] \<or> trim s = [])"

text \<open>
  \<^verbatim>\<open>this.settings.partitionKey.charAt(0) !== '/' ? '/' + partitionKey : partitionKey\<close>,
  applied when the partition key is truthy.
\<close>

definition normalizePartitionKey :: "string option \<Rightarrow> string option" where
  "normalizePartitionKey pk =
     (case pk of
        None \<Rightarrow> None
      | Some k \<Rightarrow>
          if k = [] then Some k
          else if take 1 k \<noteq> ''/'' then Some (''/'' @ k) else Some k)"

text \<open>\<^verbatim>\<open>this.settings.partitionValue || ''\<close>.\<close>

definition orEmpty :: "string option \<Rightarrow> string" where
  "orEmpty v = (case v of None \<Rightarrow> [] | Some s \<Rightarrow> s)"

text \<open>
  \<^verbatim>\<open>blankDocumentStoreItem[key] === 'true'\<close> for the object
  \<^verbatim>\<open>{ id: 'true', realId: 'true', document: 'true' }\<close>.
\<close>

definition blankDocumentStoreItem :: "(string \<times> string) list" where
  "blankDocumentStoreItem = [(''id'', ''true''), (''realId'', ''true''), (''document'', ''true'')]"

definition blankHas :: "string option \<Rightarrow> bool" where
  "blankHas pk =
     (case pk of None \<Rightarrow> False | Some k \<Rightarrow> map_of blankDocumentStoreItem k = Some ''true'')"

text \<open>\<^verbatim>\<open>Object.keys(blankDocumentStoreItem)\<close> in a template string.\<close>

definition joinComma :: "string list \<Rightarrow> string" where
  "joinComma xs = concat (case xs of [] \<Rightarrow> [] | y # ys \<Rightarrow> y # map (\<lambda>s. '','' @ s) ys)"

text \<open>
  The validation both versions of the constructor start with; \<open>None\<close> when
  nothing is thrown.
\<close>

definition validate :: "CosmosDbStorageSettings \<Rightarrow> thrown option" where
  "validate s =
     (if missing (serviceEndpoint s) then Some (newError ''The settings service Endpoint is required.'')
      else if missing (authKey s) then Some (newError ''The settings authKey is required.'')
      else if missing (databaseId s) then Some (newError ''The settings dataBase ID is required.'')
      else if missing (collectionId s) then Some (newError ''The settings collection ID is required.'')
      else None)"

text \<open>
  The current constructor (the second version in the file). It takes the address of the
  caller's settings object (\<open>None\<close>: no settings given), the optional policy
  configurator and the heap of settings objects; it returns the error thrown or the new
  store, and the heap. \<^verbatim>\<open>this.settings = {...settings}\<close> allocates the
  copy; the later assignments to \<^verbatim>\<open>this.settings\<close> write to the copy.
  The client options are read from the caller's object, whose endpoint and key the
  validation has found to be non-empty strings.
\<close>

definition constructor ::
  "lib \<Rightarrow> addr option \<Rightarrow> (ConnectionPolicy \<Rightarrow> ConnectionPolicy) option \<Rightarrow>
   CosmosDbStorageSettings list \<Rightarrow> (thrown + CosmosDbStorage) \<times> CosmosDbStorageSettings list" where
  "constructor L settingsArg connectionPolicyConfigurator h =
     (case settingsArg of
        None \<Rightarrow> (Inl (newError ''The settings parameter is required.''), h)
      | Some a \<Rightarrow>
          (case validate (h ! a) of
             Some e \<Rightarrow> (Inl e, h)
           | None \<Rightarrow>
               (let copy = length h;
                    h1 = h @ [h ! a];
                    policy = (case connectionPolicyConfigurator of
                                None \<Rightarrow> newConnectionPolicy L
                              | Some f \<Rightarrow> f (newConnectionPolicy L));
                    this = \<lparr> settings = copy,
                             client = \<lparr> masterKey = orEmpty (authKey (h1 ! a)),
                                        endpoint = orEmpty (serviceEndpoint (h1 ! a)),
                                        connectionPolicy = policy \<rparr>,
                             container = None,
                             database = None,
                             documentCollectionCreationRequestOption =
                               documentCollectionRequestOptions (h1 ! a),
                             databaseCreationRequestOption =
                               databaseCreationRequestOptions (h1 ! a) \<rparr>;
                    h2 = h1[copy :=
                              (h1 ! copy)
                                \<lparr> partitionKey := normalizePartitionKey (partitionKey (h1 ! copy)) \<rparr>];
                    h3 = h2[copy :=
                              (h2 ! copy)
                                \<lparr> partitionValue := Some (orEmpty (partitionValue (h2 ! copy))) \<rparr>]
                in if blankHas (partitionKey (h3 ! copy))
                   then (Inl (newError (''partitionKey cannot be set to any: '' @
                                         joinComma (map fst blankDocumentStoreItem))), h3)
                   else (Inr this, h3))))"

text \<open>
  The older constructor (the first version in the file): no default for the partition
  value, and the reserved names are compared with their leading separator.
\<close>

definition dquote :: "string \<Rightarrow> string" where
  "dquote s = [CHR 0x22] @ s @ [CHR 0x22]"

definition constructor_old ::
  "lib \<Rightarrow> addr option \<Rightarrow> (ConnectionPolicy \<Rightarrow> ConnectionPolicy) option \<Rightarrow>
   CosmosDbStorageSettings list \<Rightarrow> (thrown + CosmosDbStorage) \<times> CosmosDbStorageSettings list" where
  "constructor_old L settingsArg connectionPolicyConfigurator h =
     (case settingsArg of
        None \<Rightarrow> (Inl (newError ''The settings parameter is required.''), h)
      | Some a \<Rightarrow>
          (case validate (h ! a) of
             Some e \<Rightarrow> (Inl e, h)
           | None \<Rightarrow>
               (let copy = length h;
                    h1 = h @ [h ! a];
                    policy = (case connectionPolicyConfigurator of
                                None \<Rightarrow> newConnectionPolicy L
                              | Some f \<Rightarrow> f (newConnectionPolicy L));
                    this = \<lparr> settings = copy,
                             client = \<lparr> masterKey = orEmpty (authKey (h1 ! a)),
                                        endpoint = orEmpty (serviceEndpoint (h1 ! a)),
                                        connectionPolicy = policy \<rparr>,
                             container = None,
                             database = None,
                             documentCollectionCreationRequestOption =
                               documentCollectionRequestOptions (h1 ! a),
                             databaseCreationRequestOption =
                               databaseCreationRequestOptions (h1 ! a) \<rparr>;
                    h2 = h1[copy :=
                              (h1 ! copy)
                                \<lparr> partitionKey := normalizePartitionKey (partitionKey (h1 ! copy)) \<rparr>]
                in if partitionKey (h2 ! copy) \<in> set [Some ''/id'', Some ''/realId'', Some ''/document'']
                   then (Inl (newError (''partitionKey cannot be set to '' @ dquote ''id'' @ '', '' @
                                         dquote ''realId'' @ '', or '' @ dquote ''document'')), h2)
                   else (Inr this, h2))))"

section \<open>Items, documents and the document service\<close>

text \<open>
  \<^verbatim>\<open>StoreItem\<close> is \<^verbatim>\<open>{ [key: string]: any; eTag?: string }\<close>:
  the version tag, and the other properties. \<^verbatim>\<open>DocumentStoreItem\<close> is the
  envelope the code stores (\<^verbatim>\<open>id: string; realId: string; document: any\<close>):
  its \<^verbatim>\<open>document\<close> is the item's copy, or a string when the spread
  property has replaced it; \<open>partitionProperty\<close> is the property that
  \<^verbatim>\<open>...this.formatPartitionKeyValue()\<close> adds when its name is none of
  \<^verbatim>\<open>id\<close>, \<^verbatim>\<open>realId\<close> and \<^verbatim>\<open>document\<close>.
\<close>

record StoreItem =
  eTag :: "string option"
  props :: "(string \<times> json) list"

datatype payload =
    Item StoreItem
  | Scalar string

record DocumentStoreItem =
  id_field :: string
  realId :: string
  document :: payload
  partitionProperty :: "(string \<times> string) option"

text \<open>
  \<^verbatim>\<open>{ id, realId, document, ...this.formatPartitionKeyValue() }\<close>: the spread
  comes last in the object literal, so a property of the same name as one of the three
  replaces it; any other name adds a property.
\<close>

definition spreadDocument :: "DocumentStoreItem \<Rightarrow> (string \<times> string) option \<Rightarrow> DocumentStoreItem" where
  "spreadDocument d spread =
     (case spread of
        None \<Rightarrow> d
      | Some (n, v) \<Rightarrow>
          if n = ''id'' then d\<lparr> id_field := v \<rparr>
          else if n = ''realId'' then d\<lparr> realId := v \<rparr>
          else if n = ''document'' then d\<lparr> document := Scalar v \<rparr>
          else d\<lparr> partitionProperty := Some (n, v) \<rparr>)"

record QuerySpecParameters =
  param_name :: string
  param_value :: string
  param_partition :: "(string \<times> string) option"

text \<open>
  \<^verbatim>\<open>{ name, value, ...this.formatPartitionKeyValue() }\<close>, the spread last
  as well.
\<close>

definition spreadParameter :: "QuerySpecParameters \<Rightarrow> (string \<times> string) option \<Rightarrow> QuerySpecParameters" where
  "spreadParameter p spread =
     (case spread of
        None \<Rightarrow> p
      | Some (n, v) \<Rightarrow>
          if n = ''name'' then p\<lparr> param_name := v \<rparr>
          else if n = ''value'' then p\<lparr> param_value := v \<rparr>
          else p\<lparr> param_partition := Some (n, v) \<rparr>)"

record QuerySpec =
  query :: string
  parameters :: "QuerySpecParameters list"

text \<open>
  A row of \<^verbatim>\<open>SELECT c.id, c.realId, c.document, c._etag\<close>, typed as the
  code reads it: the document is an item.
\<close>

record resource =
  res_id :: string
  res_realId :: string
  res_document :: StoreItem
  res_etag :: string

text \<open>
  The requests the code sends through the client library, with the arguments it passes:
  \<^item> \<^verbatim>\<open>databases.createIfNotExists({ id }, options)\<close>;
  \<^item> \<^verbatim>\<open>containers.createIfNotExists({ id, partitionKey }, options)\<close> on a
    database, with the partition path when one is configured;
  \<^item> \<^verbatim>\<open>items.query(querySpec, { partitionKey })\<close>;
  \<^item> \<^verbatim>\<open>items.upsert(doc, { disableAutomaticIdGeneration: true })\<close>;
  \<^item> \<^verbatim>\<open>item(id, partitionKey).replace(doc, { accessCondition: { type: 'IfMatch', condition }, partitionKey })\<close>;
  \<^item> \<^verbatim>\<open>item(id, partitionKey).delete({ partitionKey })\<close>.
\<close>

datatype request =
    CreateDatabase string "addr option"
  | CreateContainer Database string "string option" "addr option"
  | Query Container QuerySpec "string option"
  | Upsert Container DocumentStoreItem
  | Replace Container string "string option" DocumentStoreItem string "string option"
  | Delete Container string "string option" "string option"

text \<open>
  The document service is the environment of the code, not part of the repository. Its
  model: the log of the requests received, the documents of the partition the store
  addresses (by \<^verbatim>\<open>id\<close>, each with its \<^verbatim>\<open>_etag\<close>), a counter
  from which fresh version tokens are made, and a script of failures: the next request
  fails with the head of \<open>faults\<close> when that is \<open>Some e\<close> (a transport error,
  a conflict or any other response), and is served when it is \<open>None\<close> or the script is
  empty. A served upsert inserts or replaces the document of the body's
  \<^verbatim>\<open>id\<close>; a served replace needs the addressed document to exist (else
  404) and its token to equal the if-match condition (else 412), and a body whose
  \<^verbatim>\<open>id\<close> is not the addressed one renames the document, unless that id
  is taken (409); a served delete needs the document to exist (else 404). A query
  answers with the rows of the stored documents whose \<^verbatim>\<open>id\<close> is among the
  parameter values (the model does not look at the names of the parameters); a stored
  document whose \<^verbatim>\<open>document\<close> is not an object has no row of the type
  above and is left out of the answer.
\<close>

record cosmos =
  requests :: "request list"
  stored :: "(string \<times> DocumentStoreItem \<times> string) list"
  revision :: nat
  faults :: "thrown option list"

definition etag_of :: "nat \<Rightarrow> string" where
  "etag_of n = CHR ''v'' # replicate n (CHR ''i'')"

definition statusResponse :: "int \<Rightarrow> thrown" where
  "statusResponse n = Response [(''code'', JNum n)]"

definition receive :: "request \<Rightarrow> cosmos \<Rightarrow> thrown option \<times> cosmos" where
  "receive rq c =
     (case faults c of
        [] \<Rightarrow> (None, c\<lparr> requests := requests c @ [rq] \<rparr>)
      | f # fs \<Rightarrow> (f, c\<lparr> requests := requests c @ [rq], faults := fs \<rparr>))"

definition databases_createIfNotExists ::
  "string \<Rightarrow> addr option \<Rightarrow> cosmos \<Rightarrow> (thrown + Database) \<times> cosmos" where
  "databases_createIfNotExists dbId options c =
     (case receive (CreateDatabase dbId options) c of
        (Some e, c1) \<Rightarrow> (Inl e, c1)
      | (None, c1) \<Rightarrow> (Inr (DatabaseHandle dbId), c1))"

definition containers_createIfNotExists ::
  "Database \<Rightarrow> string \<Rightarrow> string option \<Rightarrow> addr option \<Rightarrow> cosmos \<Rightarrow> (thrown + Container) \<times> cosmos" where
  "containers_createIfNotExists db collId path options c =
     (case receive (CreateContainer db collId path options) c of
        (Some e, c1) \<Rightarrow> (Inl e, c1)
      | (None, c1) \<Rightarrow> (Inr (ContainerHandle db collId), c1))"

definition rowOf :: "string \<times> DocumentStoreItem \<times> string \<Rightarrow> resource option" where
  "rowOf x =
     (case x of
        (i, d, e) \<Rightarrow>
          (case document d of
             Item item \<Rightarrow>
               Some \<lparr> res_id = id_field d, res_realId = realId d, res_document = item, res_etag = e \<rparr>
           | Scalar s \<Rightarrow> None))"

definition select :: "QuerySpec \<Rightarrow> cosmos \<Rightarrow> resource list" where
  "select spec c =
     List.map_filter rowOf
       (filter (\<lambda>(i, d, e). i \<in> set (map param_value (parameters spec))) (stored c))"

definition items_query ::
  "Container \<Rightarrow> QuerySpec \<Rightarrow> string option \<Rightarrow> cosmos \<Rightarrow> (thrown + resource list) \<times> cosmos" where
  "items_query co spec pv c =
     (case receive (Query co spec pv) c of
        (Some e, c1) \<Rightarrow> (Inl e, c1)
      | (None, c1) \<Rightarrow> (Inr (select spec c1), c1))"

definition put :: "string \<Rightarrow> DocumentStoreItem \<Rightarrow> cosmos \<Rightarrow> cosmos" where
  "put i d c = c\<lparr> stored := AList.update i (d, etag_of (revision c)) (stored c),
                  revision := Suc (revision c) \<rparr>"

definition items_upsert ::
  "Container \<Rightarrow> DocumentStoreItem \<Rightarrow> cosmos \<Rightarrow> (thrown + unit) \<times> cosmos" where
  "items_upsert co d c =
     (case receive (Upsert co d) c of
        (Some e, c1) \<Rightarrow> (Inl e, c1)
      | (None, c1) \<Rightarrow> (Inr (), put (id_field d) d c1))"

definition item_replace ::
  "Container \<Rightarrow> string \<Rightarrow> string option \<Rightarrow> DocumentStoreItem \<Rightarrow> string \<Rightarrow> string option \<Rightarrow>
   cosmos \<Rightarrow> (thrown + unit) \<times> cosmos" where
  "item_replace co i pk d condition pv c =
     (case receive (Replace co i pk d condition pv) c of
        (Some e, c1) \<Rightarrow> (Inl e, c1)
      | (None, c1) \<Rightarrow>
          (case map_of (stored c1) i of
             None \<Rightarrow> (Inl (statusResponse 404), c1)
           | Some (d0, e0) \<Rightarrow>
               if e0 \<noteq> condition then (Inl (statusResponse 412), c1)
               else if id_field d = i then (Inr (), put i d c1)
               else if map_of (stored c1) (id_field d) \<noteq> None then (Inl (statusResponse 409), c1)
               else (Inr (), put (id_field d) d (c1\<lparr> stored := AList.delete i (stored c1) \<rparr>))))"

definition item_delete ::
  "Container \<Rightarrow> string \<Rightarrow> string option \<Rightarrow> string option \<Rightarrow> cosmos \<Rightarrow> (thrown + unit) \<times> cosmos" where
  "item_delete co i pk pv c =
     (case receive (Delete co i pk pv) c of
        (Some e, c1) \<Rightarrow> (Inl e, c1)
      | (None, c1) \<Rightarrow>
          (case map_of (stored c1) i of
             None \<Rightarrow> (Inl (statusResponse 404), c1)
           | Some x \<Rightarrow> (Inr (), c1\<lparr> stored := AList.delete i (stored c1) \<rparr>)))"

section \<open>The store's operations\<close>

text \<open>
  The state the operations run in: the heap of settings objects, the heap of store items
  and the document service. An operation takes the store object and the world and returns
  its result (\<open>Inl\<close>: the promise rejects with that value), the store object and the
  world after it.
\<close>

record world =
  settingsHeap :: "CosmosDbStorageSettings list"
  itemHeap :: "StoreItem list"
  service :: cosmos

definition this_settings :: "CosmosDbStorage \<Rightarrow> world \<Rightarrow> CosmosDbStorageSettings" where
  "this_settings this w = settingsHeap w ! settings this"

text \<open>
  \<^verbatim>\<open>formatPartitionKeyValue()\<close>: the property spread into documents and
  query parameters, \<open>None\<close> for the empty object.
\<close>

definition formatPartitionKeyValue :: "CosmosDbStorage \<Rightarrow> world \<Rightarrow> (string \<times> string) option" where
  "formatPartitionKeyValue this w =
     (case partitionKey (this_settings this w) of
        None \<Rightarrow> None
      | Some pk \<Rightarrow>
          if pk = [] then None
          else Some (drop 1 pk, orEmpty (partitionValue (this_settings this w))))"

definition getOrCreateDatabase ::
  "lib \<Rightarrow> CosmosDbStorage \<Rightarrow> world \<Rightarrow> (thrown + unit) \<times> CosmosDbStorage \<times> world" where
  "getOrCreateDatabase L this w =
     (case databases_createIfNotExists (orEmpty (databaseId (this_settings this w)))
             (databaseCreationRequestOption this) (service w) of
        (Inr db, c1) \<Rightarrow> (Inr (), this\<lparr> database := Some db \<rparr>, w\<lparr> service := c1 \<rparr>)
      | (Inl err, c1) \<Rightarrow>
          if err_code err \<noteq> Some (JNum 409)
          then (Inl (throwWithNewMessage L err ''Error initializing database''), this, w\<lparr> service := c1 \<rparr>)
          else (Inr (), this, w\<lparr> service := c1 \<rparr>))"

definition partitionMismatch :: "nat \<Rightarrow> string" where
  "partitionMismatch indent =
     ''Error initializing container. You might be using partitions in a non-partitioned DB or''
     @ [CHR 0x0A] @ replicate indent (CHR '' '')
     @ ''are not using partitions in a partitioned db that already contains partitioned data''"

text \<open>The \<^verbatim>\<open>catch\<close> block of \<^verbatim>\<open>getOrCreateContainer\<close>.\<close>

definition catchContainer :: "lib \<Rightarrow> thrown \<Rightarrow> thrown + unit" where
  "catchContainer L err =
     (if err_code err = Some (JNum 400)
      then Inl (throwWithNewMessage L err (partitionMismatch 16))
      else if err_code err \<noteq> Some (JNum 409)
      then Inl (throwWithNewMessage L err ''Error initializing container'')
      else Inr ())"

definition getOrCreateContainer ::
  "lib \<Rightarrow> CosmosDbStorage \<Rightarrow> world \<Rightarrow> (thrown + unit) \<times> CosmosDbStorage \<times> world" where
  "getOrCreateContainer L this w =
     (let pk = partitionKey (this_settings this w);
          path = (case pk of None \<Rightarrow> None | Some k \<Rightarrow> if k = [] then None else Some k)
      in case database this of
           None \<Rightarrow> (catchContainer L (nullPropertyError L ''containers''), this, w)
         | Some db \<Rightarrow>
             (case containers_createIfNotExists db (orEmpty (collectionId (this_settings this w))) path
                     (documentCollectionCreationRequestOption this) (service w) of
                (Inr co, c1) \<Rightarrow> (Inr (), this\<lparr> container := Some co \<rparr>, w\<lparr> service := c1 \<rparr>)
              | (Inl err, c1) \<Rightarrow> (catchContainer L err, this, w\<lparr> service := c1 \<rparr>)))"

definition ensureContainerExists ::
  "lib \<Rightarrow> CosmosDbStorage \<Rightarrow> world \<Rightarrow> (thrown + unit) \<times> CosmosDbStorage \<times> world" where
  "ensureContainerExists L this w =
     (case (if database this = None then getOrCreateDatabase L this w else (Inr (), this, w)) of
        (Inl e, this1, w1) \<Rightarrow> (Inl e, this1, w1)
      | (Inr u, this1, w1) \<Rightarrow>
          if container this1 = None then getOrCreateContainer L this1 w1 else (Inr (), this1, w1))"

text \<open>Decimal digits of an index, for the parameter names \<^verbatim>\<open>@id0, @id1, ...\<close>.\<close>

fun decimal :: "nat \<Rightarrow> string" where
  "decimal n =
     (if n < 10 then [char_of (48 + n)]
      else decimal (n div 10) @ [char_of (48 + n mod 10)])"

definition buildQuerySpec :: "lib \<Rightarrow> CosmosDbStorage \<Rightarrow> string list \<Rightarrow> world \<Rightarrow> QuerySpec" where
  "buildQuerySpec L this keys w =
     (let parameterSequence = joinComma (map (\<lambda>ix. ''@id'' @ decimal ix) [0 ..< length keys]);
          parameterValues =
            map (\<lambda>(key, ix). spreadParameter
                                 \<lparr> param_name = ''@id'' @ decimal ix,
                                   param_value = escapeKey L key,
                                   param_partition = None \<rparr>
                                 (formatPartitionKeyValue this w))
              (zip keys [0 ..< length keys])
      in \<lparr> query = ''SELECT c.id, c.realId, c.document, c._etag FROM c WHERE c.id in (''
                     @ parameterSequence @ '')'',
            parameters = parameterValues \<rparr>)"

text \<open>
  \<^verbatim>\<open>storeItems[resource.realId] = resource.document;
  storeItems[resource.realId].eTag = resource._etag\<close>: the result object as the list
  of its entries, a later assignment to a key replacing the earlier one.
\<close>

definition pushDocument :: "(string \<times> StoreItem) list \<Rightarrow> resource \<Rightarrow> (string \<times> StoreItem) list" where
  "pushDocument storeItems r =
     AList.update (res_realId r) ((res_document r)\<lparr> eTag := Some (res_etag r) \<rparr>) storeItems"

text \<open>The \<^verbatim>\<open>catch\<close> block of \<^verbatim>\<open>read\<close>.\<close>

definition catchRead :: "lib \<Rightarrow> thrown \<Rightarrow> thrown" where
  "catchRead L err =
     (if err_code err = Some (JNum 400)
      then throwWithNewMessage L err (partitionMismatch 20)
      else throwWithNewMessage L err ''Error reading from container'')"

text \<open>
  \<^verbatim>\<open>read(keys)\<close>; \<open>None\<close> is a null or undefined argument.
\<close>

definition read ::
  "lib \<Rightarrow> CosmosDbStorage \<Rightarrow> string list option \<Rightarrow> world \<Rightarrow>
   (thrown + (string \<times> StoreItem) list) \<times> CosmosDbStorage \<times> world" where
  "read L this keysArg w =
     (case keysArg of
        None \<Rightarrow> (Inr [], this, w)
      | Some keys \<Rightarrow>
          if length keys = 0 then (Inr [], this, w)
          else
            (let querySpec = buildQuerySpec L this keys w
             in case ensureContainerExists L this w of
                  (Inl e, this1, w1) \<Rightarrow> (Inl e, this1, w1)
                | (Inr u, this1, w1) \<Rightarrow>
                    (case container this1 of
                       None \<Rightarrow> (Inl (catchRead L (nullPropertyError L ''items'')), this1, w1)
                     | Some co \<Rightarrow>
                         (case items_query co querySpec (partitionValue (this_settings this1 w1)) (service w1) of
                            (Inl err, c1) \<Rightarrow> (Inl (catchRead L err), this1, w1\<lparr> service := c1 \<rparr>)
                          | (Inr result, c1) \<Rightarrow>
                              (Inr (foldl pushDocument [] result), this1, w1\<lparr> service := c1 \<rparr>)))))"

text \<open>
  One entry of \<^verbatim>\<open>write\<close>: the body of the callback that
  \<^verbatim>\<open>Object.keys(changes).map\<close> runs for key \<open>k\<close>. The changes object is
  the list of its entries, each the address of the caller's item.
  \<^verbatim>\<open>{...changes[k]}\<close> allocates the copy, \<^verbatim>\<open>delete changesCopy.eTag\<close>
  writes to the copy, and the document literal lists the copy as it is when the request
  is made, before the partition property is spread into it.
\<close>

definition upsertDocument ::
  "lib \<Rightarrow> CosmosDbStorage \<Rightarrow> DocumentStoreItem \<Rightarrow> world \<Rightarrow> (thrown + unit) \<times> world" where
  "upsertDocument L this documentChange w =
     (case container this of
        None \<Rightarrow> (Inl (throwWithNewMessage L (nullPropertyError L ''items'') ''Error upserting document''), w)
      | Some co \<Rightarrow>
          (case items_upsert co documentChange (service w) of
             (Inl err, c1) \<Rightarrow> (Inl (throwWithNewMessage L err ''Error upserting document''), w\<lparr> service := c1 \<rparr>)
           | (Inr u, c1) \<Rightarrow> (Inr (), w\<lparr> service := c1 \<rparr>)))"

definition replaceDocument ::
  "lib \<Rightarrow> CosmosDbStorage \<Rightarrow> string \<Rightarrow> DocumentStoreItem \<Rightarrow> string \<Rightarrow> world \<Rightarrow> (thrown + unit) \<times> world" where
  "replaceDocument L this k documentChange etag w =
     (case container this of
        None \<Rightarrow> (Inl (throwWithNewMessage L (nullPropertyError L ''item'') ''Error replacing document''), w)
      | Some co \<Rightarrow>
          (case item_replace co (escapeKey L k) (partitionKey (this_settings this w)) documentChange etag
                  (partitionValue (this_settings this w)) (service w) of
             (Inl err, c1) \<Rightarrow> (Inl (throwWithNewMessage L err ''Error replacing document''), w\<lparr> service := c1 \<rparr>)
           | (Inr u, c1) \<Rightarrow> (Inr (), w\<lparr> service := c1 \<rparr>)))"

definition writeKey ::
  "lib \<Rightarrow> CosmosDbStorage \<Rightarrow> (string \<times> addr) list \<Rightarrow> string \<Rightarrow> world \<Rightarrow> (thrown + unit) \<times> world" where
  "writeKey L this changes k w =
     (case map_of changes k of
        None \<Rightarrow> (Inl (undefinedPropertyError L ''eTag''),
                  w\<lparr> itemHeap := itemHeap w @ [\<lparr> eTag = None, props = [] \<rparr>] \<rparr>)
      | Some a \<Rightarrow>
          (let changesCopy = length (itemHeap w);
               h1 = itemHeap w @ [itemHeap w ! a];
               h2 = h1[changesCopy := (h1 ! changesCopy)\<lparr> eTag := None \<rparr>];
               w1 = w\<lparr> itemHeap := h2 \<rparr>;
               documentChange = spreadDocument
                                  \<lparr> id_field = escapeKey L k,
                                    realId = k,
                                    document = Item (h2 ! changesCopy),
                                    partitionProperty = None \<rparr>
                                  (formatPartitionKeyValue this w1)
           in case eTag (h2 ! a) of
                None \<Rightarrow> upsertDocument L this documentChange w1
              | Some etag \<Rightarrow>
                  if etag = [] \<or> etag = ''*'' then upsertDocument L this documentChange w1
                  else if length etag > 0 then replaceDocument L this k documentChange etag w1
                  else (Inl (newError ''etag empty''), w1)))"

text \<open>
  Running a callback for each key in turn: every callback sends its one request when it
  is called, so the service receives the requests in the order of the keys. The list
  returned holds how each callback's promise settles.
\<close>

fun forEachKey ::
  "(string \<Rightarrow> world \<Rightarrow> (thrown + unit) \<times> world) \<Rightarrow> string list \<Rightarrow> world \<Rightarrow> (thrown + unit) list \<times> world" where
  "forEachKey f [] w = ([], w)"
| "forEachKey f (k # ks) w =
     (case f k w of
        (r, w1) \<Rightarrow> (case forEachKey f ks w1 of (rs, w2) \<Rightarrow> (r # rs, w2)))"

text \<open>
  \<^verbatim>\<open>write(changes)\<close>. The promises of \<^verbatim>\<open>Object.keys(changes).map(async ...)\<close>
  are neither returned nor awaited: the result of \<^verbatim>\<open>write\<close> does not depend
  on them. The operation returns its own result, the per-key results (which no caller
  receives), the store object and the world once every request is answered.
\<close>

definition writeChanges ::
  "lib \<Rightarrow> CosmosDbStorage \<Rightarrow> (string \<times> addr) list option \<Rightarrow> world \<Rightarrow>
   (thrown + unit) \<times> (thrown + unit) list \<times> CosmosDbStorage \<times> world" where
  "writeChanges L this changesArg w =
     (case changesArg of
        None \<Rightarrow> (Inr (), [], this, w)
      | Some changes \<Rightarrow>
          if length (map fst changes) = 0 then (Inr (), [], this, w)
          else
            (case ensureContainerExists L this w of
               (Inl e, this1, w1) \<Rightarrow> (Inl e, [], this1, w1)
             | (Inr u, this1, w1) \<Rightarrow>
                 (case forEachKey (writeKey L this1 changes) (map fst changes) w1 of
                    (settled, w2) \<Rightarrow> (Inr (), settled, this1, w2))))"

text \<open>One key of \<^verbatim>\<open>delete\<close>: the body of the callback of \<^verbatim>\<open>keys.map\<close>.\<close>

definition deleteKey :: "lib \<Rightarrow> CosmosDbStorage \<Rightarrow> string \<Rightarrow> world \<Rightarrow> (thrown + unit) \<times> world" where
  "deleteKey L this k w =
     (case container this of
        None \<Rightarrow> (Inl (throwWithNewMessage L (nullPropertyError L ''item'') ''Unable to delete document''), w)
      | Some co \<Rightarrow>
          (case item_delete co (escapeKey L k) (partitionKey (this_settings this w))
                  (partitionValue (this_settings this w)) (service w) of
             (Inr u, c1) \<Rightarrow> (Inr (), w\<lparr> service := c1 \<rparr>)
           | (Inl err, c1) \<Rightarrow>
               if err_code err \<noteq> Some (JNum 404)
               then (Inl (throwWithNewMessage L err ''Unable to delete document''), w\<lparr> service := c1 \<rparr>)
               else (Inr (), w\<lparr> service := c1 \<rparr>)))"

text \<open>
  \<^verbatim>\<open>delete(keys)\<close>. \<^verbatim>\<open>await keys.map(async ...)\<close> awaits an array,
  which is not a promise: as in \<^verbatim>\<open>write\<close>, the per-key promises are not
  observed.
\<close>

definition delete ::
  "lib \<Rightarrow> CosmosDbStorage \<Rightarrow> string list option \<Rightarrow> world \<Rightarrow>
   (thrown + unit) \<times> (thrown + unit) list \<times> CosmosDbStorage \<times> world" where
  "delete L this keysArg w =
     (case keysArg of
        None \<Rightarrow> (Inr (), [], this, w)
      | Some keys \<Rightarrow>
          if length keys = 0 then (Inr (), [], this, w)
          else
            (case ensureContainerExists L this w of
               (Inl e, this1, w1) \<Rightarrow> (Inl e, [], this1, w1)
             | (Inr u, this1, w1) \<Rightarrow>
                 (case forEachKey (deleteKey L this1) keys w1 of
                    (settled, w2) \<Rightarrow> (Inr (), settled, this1, w2))))"

section \<open>Auxiliary notions for the statements\<close>

text \<open>The failure scripted for the next request, if any.\<close>

definition nextFault :: "cosmos \<Rightarrow> thrown option" where
  "nextFault c = (case faults c of [] \<Rightarrow> None | f # fs \<Rightarrow> f)"

text \<open>The requests the service received between two states of the world.\<close>

definition sentBetween :: "world \<Rightarrow> world \<Rightarrow> request list" where
  "sentBetween w w' = drop (length (requests (service w))) (requests (service w'))"

text \<open>The document a request carries to be persisted, if it carries one.\<close>

fun carried :: "request \<Rightarrow> DocumentStoreItem option" where
  "carried (Upsert co d) = Some d"
| "carried (Replace co i pk d condition pv) = Some d"
| "carried (CreateDatabase dbId options) = None"
| "carried (CreateContainer db collId path options) = None"
| "carried (Query co spec pv) = None"
| "carried (Delete co i pk pv) = None"

text \<open>
  Whether the document a request carries is the item that \<open>changes\<close> holds for the
  document's key, read from the heap \<open>h\<close>, without its version tag.
\<close>

definition strippedCopy :: "(string \<times> addr) list \<Rightarrow> StoreItem list \<Rightarrow> request \<Rightarrow> bool" where
  "strippedCopy changes h rq =
     (case carried rq of
        None \<Rightarrow> True
      | Some d \<Rightarrow>
          (case map_of changes (realId d) of
             None \<Rightarrow> False
           | Some a \<Rightarrow> document d = Item ((h ! a)\<lparr> eTag := None \<rparr>)))"

text \<open>Whether a document's payload has no version tag: a string has no property.\<close>

definition untagged :: "DocumentStoreItem \<Rightarrow> bool" where
  "untagged d = (case document d of Item item \<Rightarrow> eTag item = None | Scalar s \<Rightarrow> True)"

definition sendsUntagged :: "request \<Rightarrow> bool" where
  "sendsUntagged rq = (case carried rq of None \<Rightarrow> True | Some d \<Rightarrow> untagged d)"

definition payloadUntagged :: "string \<times> DocumentStoreItem \<times> string \<Rightarrow> bool" where
  "payloadUntagged x = untagged (fst (snd x))"

text \<open>
  Whether the property spread into a document leaves \<^verbatim>\<open>id\<close>,
  \<^verbatim>\<open>realId\<close> and \<^verbatim>\<open>document\<close> as the object literal lists
  them: there is none, or its name is none of the three.
\<close>

definition envelopeKept :: "(string \<times> string) option \<Rightarrow> bool" where
  "envelopeKept spread =
     (case spread of None \<Rightarrow> True | Some (n, v) \<Rightarrow> n \<notin> set (map fst blankDocumentStoreItem))"

text \<open>Whether a request is one of the two provisioning calls.\<close>

fun provisioning :: "request \<Rightarrow> bool" where
  "provisioning (CreateDatabase dbId options) = True"
| "provisioning (CreateContainer db collId path options) = True"
| "provisioning (Query co spec pv) = False"
| "provisioning (Upsert co d) = False"
| "provisioning (Replace co i pk d condition pv) = False"
| "provisioning (Delete co i pk pv) = False"


subsection \<open>Concrete values\<close>

text \<open>
  Values at which the statements below are instantiated: library functions (keys that
  need no escaping, a JSON rendering for strings that need none, the messages of one
  engine), the settings of the repository's test file, a store as the constructor
  leaves it and a store whose handles are set. Of \<^verbatim>\<open>JSON.parse\<close> the
  instance knows one body: the text \<^verbatim>\<open>Service Unavailable\<close> is not JSON, and
  parsing it throws a \<^verbatim>\<open>SyntaxError\<close>; it takes every other body for an
  object that has no message.
\<close>

definition squote :: "string \<Rightarrow> string" where
  "squote s = [CHR 0x27] @ s @ [CHR 0x27]"

definition exampleSyntaxError :: thrown where
  "exampleSyntaxError = Err ''Unexpected token S in JSON at position 0'' None NoOriginal"

fun renderJson :: "json \<Rightarrow> string" where
  "renderJson JNull = ''null''"
| "renderJson (JBool b) = (if b then ''true'' else ''false'')"
| "renderJson (JNum n) = (if n < 0 then ''-'' @ decimal (nat (- n)) else decimal (nat n))"
| "renderJson (JStr s) = dquote s"
| "renderJson (JArr xs) = ''['' @ joinComma (map renderJson xs) @ '']''"
| "renderJson (JObj fs) =
     ''{'' @ joinComma (map (\<lambda>kv. dquote (fst kv) @ '':'' @ renderJson (snd kv)) fs) @ ''}''"

definition exampleLib :: lib where
  "exampleLib =
     \<lparr> escapeKey = (\<lambda>key. key),
       JSON_stringify = renderJson,
       JSON_parse_message =
         (\<lambda>body. if body = JStr ''Service Unavailable'' then Inl exampleSyntaxError else Inr None),
       nullPropertyMessage = (\<lambda>p. ''Cannot read property '' @ squote p @ '' of null''),
       undefinedPropertyMessage = (\<lambda>p. ''Cannot read property '' @ squote p @ '' of undefined''),
       newConnectionPolicy = [] \<rparr>"

definition exampleSettings :: CosmosDbStorageSettings where
  "exampleSettings =
     \<lparr> serviceEndpoint = Some ''https://localhost:8081'',
       authKey = Some ''C2y6yDjf5'',
       databaseId = Some ''test-db'',
       collectionId = Some ''bot-storage'',
       partitionKey = None,
       partitionValue = None,
       databaseCreationRequestOptions = None,
       documentCollectionRequestOptions = None \<rparr>"

definition exampleClient :: CosmosClientOptions where
  "exampleClient = \<lparr> masterKey = ''C2y6yDjf5'', endpoint = ''https://localhost:8081'', connectionPolicy = [] \<rparr>"

definition freshStore :: CosmosDbStorage where
  "freshStore =
     \<lparr> settings = 0, client = exampleClient, container = None, database = None,
       documentCollectionCreationRequestOption = None, databaseCreationRequestOption = None \<rparr>"

definition exampleContainer :: Container where
  "exampleContainer = ContainerHandle (DatabaseHandle ''test-db'') ''bot-storage''"

definition readyStore :: CosmosDbStorage where
  "readyStore = freshStore\<lparr> container := Some exampleContainer, database := Some (DatabaseHandle ''test-db'') \<rparr>"

definition exampleDocument :: "string \<Rightarrow> int \<Rightarrow> DocumentStoreItem" where
  "exampleDocument k n =
     \<lparr> id_field = k, realId = k, document = Item \<lparr> eTag = None, props = [(''count'', JNum n)] \<rparr>,
       partitionProperty = None \<rparr>"

text \<open>
  A world whose settings heap holds the store's settings, whose item heap holds the given
  items, and whose service holds one document, under key \<open>k\<close> with the first
  version token, and fails as scripted.
\<close>

definition exampleWorld :: "StoreItem list \<Rightarrow> thrown option list \<Rightarrow> world" where
  "exampleWorld items script =
     \<lparr> settingsHeap = [exampleSettings\<lparr> partitionValue := Some [] \<rparr>],
       itemHeap = items,
       service = \<lparr> requests = [], stored = [(''k'', exampleDocument ''k'' 1, etag_of 0)],
                   revision = 1, faults = script \<rparr> \<rparr>"

text \<open>A failure of the service whose body is not JSON text.\<close>

definition serviceUnavailable :: thrown where
  "serviceUnavailable = Response [(''code'', JNum 503), (''body'', JStr ''Service Unavailable'')]"

section \<open>Basic facts\<close>

lemmas example_defs =
  exampleWorld_def exampleLib_def readyStore_def freshStore_def exampleContainer_def
  exampleSettings_def exampleClient_def exampleDocument_def

declare renderJson.simps [simp del]

lemma renderJson_precondition_failed:
  "renderJson (JObj [(''code'', JNum 412)]) = ''{'' @ dquote ''code'' @ '':412}''"
  by code_simp

lemma renderJson_string: "renderJson (JStr s) = dquote s"
  by (simp add: renderJson.simps)

lemma this_settings_itemHeap [simp]: "this_settings this (w\<lparr> itemHeap := x \<rparr>) = this_settings this w"
  by (simp add: this_settings_def)

lemma this_settings_service [simp]: "this_settings this (w\<lparr> service := x \<rparr>) = this_settings this w"
  by (simp add: this_settings_def)

lemma formatPartitionKeyValue_itemHeap [simp]:
  "formatPartitionKeyValue this (w\<lparr> itemHeap := x \<rparr>) = formatPartitionKeyValue this w"
  by (simp add: formatPartitionKeyValue_def this_settings_def split: option.splits)

lemma formatPartitionKeyValue_service [simp]:
  "formatPartitionKeyValue this (w\<lparr> service := x \<rparr>) = formatPartitionKeyValue this w"
  by (simp add: formatPartitionKeyValue_def this_settings_def split: option.splits)

text \<open>Every request is logged, whether it is served or fails; the log is the only thing a failure changes.\<close>

lemma receive_cases:
  obtains e where "receive rq c = (e, c\<lparr> requests := requests c @ [rq], faults := tl (faults c) \<rparr>)"
  by (cases "faults c") (simp_all add: receive_def)

lemma receive_served:
  "nextFault c = None \<Longrightarrow>
   receive rq c = (None, c\<lparr> requests := requests c @ [rq], faults := tl (faults c) \<rparr>)"
  by (cases "faults c") (simp_all add: receive_def nextFault_def)

lemma receive_frame:
  assumes "receive rq c = (e, c')"
  shows "requests c' = requests c @ [rq]" and "stored c' = stored c"
  using assms by (cases "faults c"; auto simp: receive_def)+

lemma in_set_updateD: "x \<in> set (AList.update k v al) \<Longrightarrow> x = (k, v) \<or> x \<in> set al"
  by (induction al) (auto split: if_splits)

lemma in_set_deleteD: "x \<in> set (AList.delete k al) \<Longrightarrow> x \<in> set al"
  by (induction al) (auto split: if_splits)

text \<open>
  When \<^verbatim>\<open>errWithNewMessage\<close> returns, it returns an \<^verbatim>\<open>Error\<close>
  whose message starts with the new message and whose \<^verbatim>\<open>original\<close> is the
  value it was given (the error itself when that was an \<^verbatim>\<open>Error\<close> or the
  empty string).
\<close>

lemma errWithNewMessage_returns:
  assumes "errWithNewMessage L e message = Inr e'"
  shows "\<exists>rest c. e' =
     Err (message @ '': '' @ rest) c
       (case e of Err m c0 orig \<Rightarrow> Itself | Response fs \<Rightarrow> Cause e
        | Text s \<Rightarrow> if s = [] then Itself else Cause e)"
  using assms by (cases e) (auto split: option.splits sum.splits if_splits)

text \<open>
  It throws only while parsing the truthy body of a value that is not an
  \<^verbatim>\<open>Error\<close>, and then throws what the parsing throws.
\<close>

lemma errWithNewMessage_throws:
  assumes "errWithNewMessage L e message = Inl x"
  shows "\<exists>fs body. e = Response fs \<and> map_of fs ''body'' = Some body \<and> truthy (Some body) \<and>
           JSON_parse_message L body = Inl x"
  using assms by (cases e) (auto split: option.splits sum.splits if_splits)

lemma errWithNewMessage_no_body:
  assumes "\<not> truthy (map_of fs ''body'')"
  shows "throwWithNewMessage L (Response fs) message =
           Err (message @ '': '' @ JSON_stringify L (JObj fs)) None (Cause (Response fs))"
  using assms by (simp add: throwWithNewMessage_def)

text \<open>Whatever is spread into a document, it puts no version tag into the payload.\<close>

lemma spreadDocument_untagged:
  "untagged d \<Longrightarrow> untagged (spreadDocument d spread)"
  by (auto simp: spreadDocument_def untagged_def split: option.splits)

lemma spreadDocument_of_copy_untagged [simp]:
  "untagged (spreadDocument
     \<lparr> id_field = i, realId = r, document = Item (item\<lparr> eTag := None \<rparr>), partitionProperty = None \<rparr>
     spread)"
  by (rule spreadDocument_untagged) (simp add: untagged_def)

section \<open>Empty inputs\<close>

text \<open>
  Claim C9. \<^verbatim>\<open>read\<close> with an empty or absent key list returns an empty
  mapping, \<^verbatim>\<open>write\<close> with an empty or absent changes mapping and
  \<^verbatim>\<open>delete\<close> with an empty or absent key list return without effect: each
  completes successfully and leaves the store object and the whole world as they were, so
  the service receives no request (no query, no provisioning call).
\<close>

theorem empty_input_is_no_op:
  "read L this None w = (Inr [], this, w) \<and>
   read L this (Some []) w = (Inr [], this, w) \<and>
   writeChanges L this None w = (Inr (), [], this, w) \<and>
   writeChanges L this (Some []) w = (Inr (), [], this, w) \<and>
   delete L this None w = (Inr (), [], this, w) \<and>
   delete L this (Some []) w = (Inr (), [], this, w)"
  by (simp add: read_def writeChanges_def delete_def)

section \<open>The constructor\<close>

lemma validate_exampleSettings: "validate (exampleSettings\<lparr> partitionKey := pk \<rparr>) = None"
  by (simp add: validate_def exampleSettings_def missing_def trim_def whitespace_def)

text \<open>
  Claim C4 says that a partition key which, normalized and with its separator stripped,
  is \<^verbatim>\<open>id\<close>, \<^verbatim>\<open>realId\<close> or \<^verbatim>\<open>document\<close> makes the
  constructor fail. The current constructor looks the normalized key, separator
  included, up in an object whose keys have no separator, so the check never fires: with
  the partition key \<^verbatim>\<open>id\<close> it returns a store whose partition key is
  \<^verbatim>\<open>/id\<close>.
\<close>

theorem constructor_accepts_reserved_partitionKey:
  "constructor exampleLib (Some 0) None [exampleSettings\<lparr> partitionKey := Some ''id'' \<rparr>] =
     (Inr (freshStore\<lparr> settings := 1 \<rparr>),
      [exampleSettings\<lparr> partitionKey := Some ''id'' \<rparr>,
       exampleSettings\<lparr> partitionKey := Some ''/id'', partitionValue := Some [] \<rparr>])"
  by (simp add: constructor_def validate_exampleSettings Let_def)
     (simp add: exampleSettings_def exampleLib_def freshStore_def exampleClient_def orEmpty_def
        normalizePartitionKey_def blankHas_def blankDocumentStoreItem_def)

text \<open>
  More generally, the current constructor accepts every settings object that passes the
  validation of the four required strings, whatever its partition key.
\<close>

lemma constructor_never_rejects_partitionKey:
  assumes "a < length h" "validate (h ! a) = None"
  shows "\<exists>this h'. constructor L (Some a) cfg h = (Inr this, h')"
  using assms
  by (auto simp: constructor_def Let_def blankHas_def blankDocumentStoreItem_def
        normalizePartitionKey_def nth_append split: option.splits)

text \<open>
  The older constructor compares the normalized key with the reserved names written
  with their separator, and does reject them.
\<close>

lemma normalized_strip:
  assumes "map_option (drop 1) (normalizePartitionKey pk) = Some n" "n \<noteq> []"
  shows "normalizePartitionKey pk = Some (''/'' @ n)"
proof (cases pk)
  case None
  with assms show ?thesis by (simp add: normalizePartitionKey_def)
next
  case (Some k)
  show ?thesis
  proof (cases "k = []")
    case True
    with Some assms show ?thesis by (simp add: normalizePartitionKey_def)
  next
    case False
    show ?thesis
    proof (cases "take 1 k = ''/''")
      case True
      with Some False assms have "drop 1 k = n" by (simp add: normalizePartitionKey_def)
      with True have "k = ''/'' @ n" by (metis append_take_drop_id)
      with Some False True show ?thesis by (simp add: normalizePartitionKey_def)
    next
      case no: False
      with Some False assms show ?thesis by (simp add: normalizePartitionKey_def)
    qed
  qed
qed

lemma constructor_old_rejects_reserved:
  assumes "a < length h" "validate (h ! a) = None"
    and "map_option (drop 1) (normalizePartitionKey (partitionKey (h ! a))) = Some n"
    and "n \<in> set (map fst blankDocumentStoreItem)"
  shows "\<exists>e h'. constructor_old L (Some a) cfg h = (Inl e, h')"
proof -
  from assms(4) have "n \<noteq> []" and n: "n = ''id'' \<or> n = ''realId'' \<or> n = ''document''"
    by (auto simp: blankDocumentStoreItem_def)
  with assms(3) have "normalizePartitionKey (partitionKey (h ! a)) = Some (''/'' @ n)"
    by (simp add: normalized_strip)
  with assms(1,2) n show ?thesis
    by (auto simp: constructor_old_def Let_def nth_append)
qed

text \<open>
  Claim C10. When the constructor returns a store for the settings object at address
  \<open>a\<close>: the caller's object, like every object that existed before, is what it was;
  the store's settings are a new object, the caller's settings with the partition key
  normalized and the partition value defaulted to the empty string; and writing anything
  to the caller's object afterwards leaves the store's settings object as it is. The
  store object itself holds no reference to the caller's object; what it shares with it
  are the two request option objects, which the shallow copy and the store hold by the
  caller's references.
\<close>

theorem constructor_copies_settings:
  assumes "a < length h" and "constructor L (Some a) cfg h = (Inr this, h')"
  shows "h' ! a = h ! a \<and>
         take (length h) h' = h \<and>
         settings this = length h \<and>
         h' ! settings this =
           (h ! a)\<lparr> partitionKey := normalizePartitionKey (partitionKey (h ! a)),
                     partitionValue := Some (orEmpty (partitionValue (h ! a))) \<rparr> \<and>
         (\<forall>s. h'[a := s] ! settings this = h' ! settings this) \<and>
         databaseCreationRequestOption this = databaseCreationRequestOptions (h ! a) \<and>
         documentCollectionCreationRequestOption this = documentCollectionRequestOptions (h ! a)"
  using assms
  by (auto simp: constructor_def Let_def nth_append split: option.splits if_splits)

theorem constructor_copies_settings_witness:
  "(0::nat) < length [exampleSettings\<lparr> partitionKey := Some ''pk'' \<rparr>] \<and>
   constructor exampleLib (Some 0) None [exampleSettings\<lparr> partitionKey := Some ''pk'' \<rparr>] =
     (Inr (freshStore\<lparr> settings := 1 \<rparr>),
      [exampleSettings\<lparr> partitionKey := Some ''pk'' \<rparr>,
       exampleSettings\<lparr> partitionKey := Some ''/pk'', partitionValue := Some [] \<rparr>]) \<and>
   [exampleSettings\<lparr> partitionKey := Some ''pk'' \<rparr>,
    exampleSettings\<lparr> partitionKey := Some ''/pk'', partitionValue := Some [] \<rparr>] ! 0 =
     exampleSettings\<lparr> partitionKey := Some ''pk'' \<rparr> \<and>
   settings (freshStore\<lparr> settings := 1 \<rparr>) = 1 \<and>
   (\<forall>s. [exampleSettings\<lparr> partitionKey := Some ''pk'' \<rparr>,
         exampleSettings\<lparr> partitionKey := Some ''/pk'', partitionValue := Some [] \<rparr>][0 := s]
           ! settings (freshStore\<lparr> settings := 1 \<rparr>) =
        exampleSettings\<lparr> partitionKey := Some ''/pk'', partitionValue := Some [] \<rparr>)"
proof -
  have run: "constructor exampleLib (Some 0) None [exampleSettings\<lparr> partitionKey := Some ''pk'' \<rparr>] =
     (Inr (freshStore\<lparr> settings := 1 \<rparr>),
      [exampleSettings\<lparr> partitionKey := Some ''pk'' \<rparr>,
       exampleSettings\<lparr> partitionKey := Some ''/pk'', partitionValue := Some [] \<rparr>])"
    by (simp add: constructor_def validate_exampleSettings Let_def)
       (simp add: exampleSettings_def exampleLib_def freshStore_def exampleClient_def orEmpty_def
          normalizePartitionKey_def blankHas_def blankDocumentStoreItem_def)
  have valid: "(0::nat) < length [exampleSettings\<lparr> partitionKey := Some ''pk'' \<rparr>]"
    by simp
  from constructor_copies_settings [OF valid run] run valid show ?thesis
    by (simp add: freshStore_def)
qed

section \<open>Provisioning\<close>

text \<open>
  The provisioning step sends provisioning requests only, and changes neither the heaps
  nor the stored documents.
\<close>

lemma getOrCreateDatabase_frame:
  assumes "getOrCreateDatabase L this w = (r, this1, w1)"
  shows "itemHeap w1 = itemHeap w" and "settingsHeap w1 = settingsHeap w"
    and "stored (service w1) = stored (service w)"
    and "\<exists>new. requests (service w1) = requests (service w) @ new \<and> list_all provisioning new"
  using assms
  by (auto simp: getOrCreateDatabase_def databases_createIfNotExists_def
      dest: receive_frame split: prod.splits sum.splits option.splits if_splits)

lemma getOrCreateContainer_frame:
  assumes "getOrCreateContainer L this w = (r, this1, w1)"
  shows "itemHeap w1 = itemHeap w" and "settingsHeap w1 = settingsHeap w"
    and "stored (service w1) = stored (service w)"
    and "\<exists>new. requests (service w1) = requests (service w) @ new \<and> list_all provisioning new"
  using assms
  by (auto simp: getOrCreateContainer_def containers_createIfNotExists_def Let_def
      dest: receive_frame split: prod.splits sum.splits option.splits if_splits)

lemma ensureContainerExists_frame:
  assumes "ensureContainerExists L this w = (r, this1, w1)"
  shows "itemHeap w1 = itemHeap w" and "settingsHeap w1 = settingsHeap w"
    and "stored (service w1) = stored (service w)"
    and "\<exists>new. requests (service w1) = requests (service w) @ new \<and> list_all provisioning new"
proof -
  obtain r0 this0 w0 where first:
    "(if database this = None then getOrCreateDatabase L this w else (Inr (), this, w)) = (r0, this0, w0)"
    by (metis prod_cases3)
  have f0: "itemHeap w0 = itemHeap w \<and> settingsHeap w0 = settingsHeap w \<and>
            stored (service w0) = stored (service w) \<and>
            (\<exists>new. requests (service w0) = requests (service w) @ new \<and> list_all provisioning new)"
    using first getOrCreateDatabase_frame [of L this w r0 this0 w0]
    by (cases "database this = None") auto
  obtain r' this' w' where second:
    "(if container this0 = None then getOrCreateContainer L this0 w0 else (Inr (), this0, w0)) = (r', this', w')"
    by (metis prod_cases3)
  have f1: "itemHeap w' = itemHeap w0 \<and> settingsHeap w' = settingsHeap w0 \<and>
            stored (service w') = stored (service w0) \<and>
            (\<exists>new. requests (service w') = requests (service w0) @ new \<and> list_all provisioning new)"
    using second getOrCreateContainer_frame [of L this0 w0 r' this' w']
    by (cases "container this0 = None") auto
  have w1: "w1 = w0 \<or> w1 = w'"
    using assms first second
    by (auto simp: ensureContainerExists_def split: sum.splits if_splits)
  from f0 obtain new0 where n0: "requests (service w0) = requests (service w) @ new0"
    and p0: "list_all provisioning new0" by blast
  from f1 obtain new1 where n1: "requests (service w') = requests (service w0) @ new1"
    and p1: "list_all provisioning new1" by blast
  have n01: "requests (service w') = requests (service w) @ (new0 @ new1)"
    using n0 n1 by simp
  have p01: "list_all provisioning (new0 @ new1)"
    using p0 p1 by simp
  from w1 show "itemHeap w1 = itemHeap w" using f0 f1 by auto
  from w1 show "settingsHeap w1 = settingsHeap w" using f0 f1 by auto
  from w1 show "stored (service w1) = stored (service w)" using f0 f1 by auto
  from w1 show "\<exists>new. requests (service w1) = requests (service w) @ new \<and> list_all provisioning new"
  proof
    assume "w1 = w0"
    with n0 p0 show ?thesis by blast
  next
    assume "w1 = w'"
    with n01 p01 show ?thesis by blast
  qed
qed

text \<open>With both handles set, the step does nothing: no request is sent.\<close>

lemma ensureContainerExists_with_handles:
  assumes "database this = Some db" and "container this = Some co"
  shows "ensureContainerExists L this w = (Inr (), this, w)"
  using assms by (simp add: ensureContainerExists_def)

text \<open>
  With no handle set and two requests served, the step creates the database, then the
  container, and keeps both handles.
\<close>

lemma ensureContainerExists_caches_handles:
  assumes "database this = None" and "container this = None" and "faults (service w) = []"
  shows "\<exists>db co new w'. ensureContainerExists L this w =
           (Inr (), this\<lparr> database := Some db, container := Some co \<rparr>, w') \<and>
           sentBetween w w' = new \<and> length new = 2 \<and> list_all provisioning new"
  using assms
  by (auto simp: ensureContainerExists_def getOrCreateDatabase_def getOrCreateContainer_def
      databases_createIfNotExists_def containers_createIfNotExists_def receive_def Let_def
      sentBetween_def)

text \<open>
  While the database handle is unset, the step starts by asking for the database,
  whether or not an earlier operation asked before.
\<close>

lemma ensureContainerExists_asks_while_unset:
  assumes "database this = None" and "ensureContainerExists L this w = (r, this1, w1)"
  shows "\<exists>rest. sentBetween w w1 =
           CreateDatabase (orEmpty (databaseId (this_settings this w))) (databaseCreationRequestOption this) # rest"
proof -
  obtain r0 this0 w0 where db: "getOrCreateDatabase L this w = (r0, this0, w0)"
    by (metis prod_cases3)
  obtain e where rc: "receive (CreateDatabase (orEmpty (databaseId (this_settings this w)))
      (databaseCreationRequestOption this)) (service w) = (e, (service w)\<lparr> requests := requests (service w) @
        [CreateDatabase (orEmpty (databaseId (this_settings this w))) (databaseCreationRequestOption this)],
        faults := tl (faults (service w)) \<rparr>)"
    by (rule receive_cases)
  from db rc have r0: "requests (service w0) = requests (service w) @
      [CreateDatabase (orEmpty (databaseId (this_settings this w))) (databaseCreationRequestOption this)]"
    by (auto simp: getOrCreateDatabase_def databases_createIfNotExists_def
        split: option.splits if_splits)
  show ?thesis
  proof (cases "w1 = w0")
    case True
    with r0 show ?thesis by (simp add: sentBetween_def)
  next
    case False
    with assms db have co: "getOrCreateContainer L this0 w0 = (r, this1, w1)"
      by (auto simp: ensureContainerExists_def split: sum.splits if_splits)
    from getOrCreateContainer_frame(4) [OF co] obtain new
      where "requests (service w1) = requests (service w0) @ new" by blast
    with r0 show ?thesis by (simp add: sentBetween_def)
  qed
qed

text \<open>
  Claim C7 says that the provisioning step, which every operation on a non-empty input
  runs first, treats an already-exists conflict (409) as success and keeps the handles,
  so that provisioning happens at most once. The code does swallow the conflict, but it
  sets the handle only from a successful response: after a conflict on the database the
  handle is still null, the container step reads a property of null, and the operation
  fails with that error wrapped as an initialization error. The handle is not kept, so
  the next operation asks for the database again.
\<close>

theorem read_fails_after_database_conflict:
  "read exampleLib freshStore (Some [''k'']) (exampleWorld [] [Some (statusResponse 409)]) =
   (Inl (Err (''Error initializing container: '' @ dquote (nullPropertyMessage exampleLib ''containers''))
           None Itself),
    freshStore,
    \<lparr> settingsHeap = [exampleSettings\<lparr> partitionValue := Some [] \<rparr>],
      itemHeap = [],
      service = \<lparr> requests = [CreateDatabase ''test-db'' None],
                  stored = [(''k'', exampleDocument ''k'' 1, etag_of 0)],
                  revision = 1, faults = [] \<rparr> \<rparr>)"
  by (simp add: read_def ensureContainerExists_def getOrCreateDatabase_def getOrCreateContainer_def
      databases_createIfNotExists_def receive_def catchContainer_def Let_def
      example_defs this_settings_def statusResponse_def nullPropertyError_def dquote_def orEmpty_def
      renderJson_string throwWithNewMessage_def)

text \<open>
  A conflict on the container alone is swallowed as well; the operation then reads a
  property of the null container handle and fails.
\<close>

lemma read_fails_after_container_conflict:
  "fst (read exampleLib freshStore (Some [''k'']) (exampleWorld [] [None, Some (statusResponse 409)])) =
     Inl (Err (''Error reading from container: '' @ dquote (nullPropertyMessage exampleLib ''items''))
            None Itself) \<and>
   container (fst (snd (read exampleLib freshStore (Some [''k''])
       (exampleWorld [] [None, Some (statusResponse 409)])))) = None"
  by (simp add: read_def ensureContainerExists_def getOrCreateDatabase_def getOrCreateContainer_def
      databases_createIfNotExists_def containers_createIfNotExists_def receive_def catchContainer_def
      catchRead_def Let_def
      example_defs this_settings_def statusResponse_def nullPropertyError_def dquote_def orEmpty_def
      renderJson_string throwWithNewMessage_def)

section \<open>Reading\<close>





section \<open>Writing\<close>

text \<open>
  One entry of a write whose request the service serves, in a store whose partition
  property keeps the envelope: when the item's version tag is absent or the wildcard,
  the store sends an unconditional upsert, the entry's promise resolves, and the
  document is stored whatever was stored before; when the tag is a non-empty string
  other than the wildcard, the store sends a replace with the tag as its if-match
  condition, and if the stored version token differs from the tag the entry's promise
  rejects with the replace error that wraps the service's precondition failure (412),
  the stored documents being unchanged (if the token matches, the document is replaced).
\<close>

lemma spreadDocument_literal:
  assumes "envelopeKept spread"
  shows "spreadDocument \<lparr> id_field = i, realId = r, document = p, partitionProperty = None \<rparr> spread =
           \<lparr> id_field = i, realId = r, document = p, partitionProperty = spread \<rparr>"
  using assms
  by (auto simp: spreadDocument_def envelopeKept_def blankDocumentStoreItem_def split: option.splits)

lemma example_keeps_envelope:
  "envelopeKept (formatPartitionKeyValue readyStore (exampleWorld items script))"
  by (simp add: envelopeKept_def formatPartitionKeyValue_def this_settings_def example_defs)

lemma entry_concurrency_policy:
  assumes "map_of changes k = Some a" and "a < length (itemHeap w)"
    and "container this = Some co" and "nextFault (service w) = None"
    and "envelopeKept (formatPartitionKeyValue this w)"
  shows
   "(eTag (itemHeap w ! a) = None \<or> eTag (itemHeap w ! a) = Some ''*'' \<longrightarrow>
       (\<exists>w'. writeKey L this changes k w = (Inr (), w') \<and>
             sentBetween w w' =
               [Upsert co \<lparr> id_field = escapeKey L k, realId = k,
                             document = Item ((itemHeap w ! a)\<lparr> eTag := None \<rparr>),
                             partitionProperty = formatPartitionKeyValue this w \<rparr>] \<and>
             map_of (stored (service w')) (escapeKey L k) =
               Some (\<lparr> id_field = escapeKey L k, realId = k,
                        document = Item ((itemHeap w ! a)\<lparr> eTag := None \<rparr>),
                        partitionProperty = formatPartitionKeyValue this w \<rparr>,
                     etag_of (revision (service w))))) \<and>
    (\<forall>t. eTag (itemHeap w ! a) = Some t \<and> t \<noteq> [] \<and> t \<noteq> ''*'' \<longrightarrow>
       (\<exists>r w'. writeKey L this changes k w = (r, w') \<and>
             sentBetween w w' =
               [Replace co (escapeKey L k) (partitionKey (this_settings this w))
                  \<lparr> id_field = escapeKey L k, realId = k,
                    document = Item ((itemHeap w ! a)\<lparr> eTag := None \<rparr>),
                    partitionProperty = formatPartitionKeyValue this w \<rparr>
                  t (partitionValue (this_settings this w))] \<and>
             (\<forall>d0 e0. map_of (stored (service w)) (escapeKey L k) = Some (d0, e0) \<and> e0 \<noteq> t \<longrightarrow>
                  r = Inl (Err (''Error replacing document: '' @ JSON_stringify L (JObj [(''code'', JNum 412)]))
                             None (Cause (statusResponse 412))) \<and>
                  stored (service w') = stored (service w)) \<and>
             (\<forall>d0. map_of (stored (service w)) (escapeKey L k) = Some (d0, t) \<longrightarrow>
                  r = Inr () \<and>
                  map_of (stored (service w')) (escapeKey L k) =
                    Some (\<lparr> id_field = escapeKey L k, realId = k,
                             document = Item ((itemHeap w ! a)\<lparr> eTag := None \<rparr>),
                             partitionProperty = formatPartitionKeyValue this w \<rparr>,
                          etag_of (revision (service w))))))"
  using assms
  apply (simp add: writeKey_def Let_def nth_append upsertDocument_def replaceDocument_def
      items_upsert_def item_replace_def receive_served sentBetween_def put_def
      spreadDocument_literal)
  apply (auto simp: update_conv' put_def statusResponse_def throwWithNewMessage_def
      split: option.splits)
  done

text \<open>
  Claim C1 says that a write whose item carries a version tag other than the stored
  version fails with the concurrency conflict, the stored value left unchanged, and that
  an absent or wildcard tag makes an unconditional upsert. In the write below the entry
  for \<open>j\<close> carries the wildcard and is upserted; the entry for \<open>k\<close> carries a
  tag that is not the stored document's token, its replace is refused with the
  precondition failure (412) and the stored document of \<open>k\<close> is unchanged. But the
  write does not fail: it resolves, and the conflict, the rejection of the entry's own
  promise, reaches no caller.
\<close>

theorem write_resolves_on_stale_eTag:
  "writeChanges exampleLib readyStore (Some [(''j'', 0), (''k'', 1)])
     (exampleWorld [\<lparr> eTag = Some ''*'', props = [(''count'', JNum 5)] \<rparr>,
                    \<lparr> eTag = Some ''old'', props = [(''count'', JNum 2)] \<rparr>] []) =
   (Inr (),
    [Inr (),
     Inl (Err (''Error replacing document: {'' @ dquote ''code'' @ '':412}'') None (Cause (statusResponse 412)))],
    readyStore,
    \<lparr> settingsHeap = [exampleSettings\<lparr> partitionValue := Some [] \<rparr>],
      itemHeap = [\<lparr> eTag = Some ''*'', props = [(''count'', JNum 5)] \<rparr>,
                  \<lparr> eTag = Some ''old'', props = [(''count'', JNum 2)] \<rparr>,
                  \<lparr> eTag = None, props = [(''count'', JNum 5)] \<rparr>,
                  \<lparr> eTag = None, props = [(''count'', JNum 2)] \<rparr>],
      service = \<lparr> requests = [Upsert exampleContainer (exampleDocument ''j'' 5),
                              Replace exampleContainer ''k'' None (exampleDocument ''k'' 2) ''old'' (Some [])],
                  stored = [(''k'', exampleDocument ''k'' 1, etag_of 0),
                            (''j'', exampleDocument ''j'' 5, etag_of 1)],
                  revision = 2, faults = [] \<rparr> \<rparr>)"
  by (simp add: writeChanges_def ensureContainerExists_def readyStore_def freshStore_def)
     (simp add: example_defs writeKey_def Let_def upsertDocument_def replaceDocument_def
      items_upsert_def item_replace_def receive_def spreadDocument_def throwWithNewMessage_def
      put_def formatPartitionKeyValue_def this_settings_def statusResponse_def etag_of_def
      renderJson_precondition_failed)

text \<open>
  Claim C2 says that an item whose version tag is the empty string makes the write fail
  at once with the invalid-tag error. The code tests \<^verbatim>\<open>!eTag\<close> first, and the
  empty string is falsy: the entry is upserted unconditionally, over whatever is stored.
  The branch that throws \<^verbatim>\<open>etag empty\<close> is never taken for a string.
\<close>

theorem write_key_empty_eTag_upserts:
  "writeKey exampleLib readyStore [(''k'', 0)] ''k''
     (exampleWorld [\<lparr> eTag = Some [], props = [(''count'', JNum 2)] \<rparr>] []) =
   (Inr (),
    \<lparr> settingsHeap = [exampleSettings\<lparr> partitionValue := Some [] \<rparr>],
      itemHeap = [\<lparr> eTag = Some [], props = [(''count'', JNum 2)] \<rparr>,
                  \<lparr> eTag = None, props = [(''count'', JNum 2)] \<rparr>],
      service = \<lparr> requests = [Upsert exampleContainer (exampleDocument ''k'' 2)],
                  stored = [(''k'', exampleDocument ''k'' 2, etag_of 1)],
                  revision = 2, faults = [] \<rparr> \<rparr>)"
  by (simp add: example_defs writeKey_def Let_def upsertDocument_def items_upsert_def receive_def
      put_def formatPartitionKeyValue_def this_settings_def spreadDocument_def)

text \<open>
  For an entry of the changes, the code is what it is without its last branch: a tag
  that is a string is empty, and upserted, or has a positive length.
\<close>

lemma write_key_never_etag_empty:
  assumes "map_of changes k = Some a"
  shows "writeKey L this changes k w =
     (let changesCopy = length (itemHeap w);
          h1 = itemHeap w @ [itemHeap w ! a];
          h2 = h1[changesCopy := (h1 ! changesCopy)\<lparr> eTag := None \<rparr>];
          w1 = w\<lparr> itemHeap := h2 \<rparr>;
          documentChange = spreadDocument
                             \<lparr> id_field = escapeKey L k,
                               realId = k,
                               document = Item (h2 ! changesCopy),
                               partitionProperty = None \<rparr>
                             (formatPartitionKeyValue this w1)
      in case eTag (h2 ! a) of
           None \<Rightarrow> upsertDocument L this documentChange w1
         | Some etag \<Rightarrow>
             if etag = [] \<or> etag = ''*'' then upsertDocument L this documentChange w1
             else replaceDocument L this k documentChange etag w1)"
  using assms by (simp add: writeKey_def Let_def split: option.splits)

lemma empty_eTag_is_upserted:
  assumes "map_of changes k = Some a" and "a < length (itemHeap w)"
    and "container this = Some co" and "nextFault (service w) = None"
    and "eTag (itemHeap w ! a) = Some []"
  shows "\<exists>w'. writeKey L this changes k w = (Inr (), w') \<and>
           sentBetween w w' =
             [Upsert co (spreadDocument
                           \<lparr> id_field = escapeKey L k, realId = k,
                             document = Item ((itemHeap w ! a)\<lparr> eTag := None \<rparr>),
                             partitionProperty = None \<rparr>
                           (formatPartitionKeyValue this w))]"
  using assms
  by (simp add: writeKey_def Let_def nth_append upsertDocument_def
      items_upsert_def receive_served sentBetween_def put_def)

text \<open>
  Claim C3 says that a failure of a per-key upsert or replace rejects the promise that
  \<^verbatim>\<open>write\<close> returns. The per-key promises are created by
  \<^verbatim>\<open>Object.keys(changes).map\<close> and dropped: \<^verbatim>\<open>write\<close> resolves
  although the replace of the key was refused, and the wrapped error reaches no caller.
\<close>

theorem write_resolves_when_key_fails:
  "writeChanges exampleLib readyStore (Some [(''k'', 0)])
     (exampleWorld [\<lparr> eTag = Some ''stale'', props = [(''count'', JNum 2)] \<rparr>] []) =
   (Inr (),
    [Inl (Err (''Error replacing document: {'' @ dquote ''code'' @ '':412}'') None (Cause (statusResponse 412)))],
    readyStore,
    \<lparr> settingsHeap = [exampleSettings\<lparr> partitionValue := Some [] \<rparr>],
      itemHeap = [\<lparr> eTag = Some ''stale'', props = [(''count'', JNum 2)] \<rparr>,
                  \<lparr> eTag = None, props = [(''count'', JNum 2)] \<rparr>],
      service = \<lparr> requests = [Replace exampleContainer ''k'' None (exampleDocument ''k'' 2) ''stale'' (Some [])],
                  stored = [(''k'', exampleDocument ''k'' 1, etag_of 0)],
                  revision = 1, faults = [] \<rparr> \<rparr>)"
  by (simp add: writeChanges_def ensureContainerExists_def readyStore_def freshStore_def)
     (simp add: example_defs writeKey_def Let_def replaceDocument_def item_replace_def receive_def
      put_def formatPartitionKeyValue_def this_settings_def statusResponse_def etag_of_def
      spreadDocument_def throwWithNewMessage_def renderJson_precondition_failed)

lemma write_result_ignores_keys:
  assumes "changes \<noteq> []" and "ensureContainerExists L this w = (Inr u, this1, w1)"
  shows "fst (writeChanges L this (Some changes) w) = Inr ()"
  using assms by (simp add: writeChanges_def split: prod.splits)

lemma delete_result_ignores_keys:
  assumes "keys \<noteq> []" and "ensureContainerExists L this w = (Inr u, this1, w1)"
  shows "fst (delete L this (Some keys) w) = Inr ()"
  using assms by (simp add: delete_def split: prod.splits)

text \<open>One entry of a write: what it changes.\<close>

lemma items_upsert_frame:
  assumes "items_upsert co d c = (r, c')"
  shows "requests c' = requests c @ [Upsert co d]"
    and "x \<in> set (stored c') \<Longrightarrow> x \<in> set (stored c) \<or> fst (snd x) = d"
proof -
  obtain e where rc: "receive (Upsert co d) c = (e, c\<lparr> requests := requests c @ [Upsert co d], faults := tl (faults c) \<rparr>)"
    by (rule receive_cases)
  from assms rc show "requests c' = requests c @ [Upsert co d]"
    by (auto simp: items_upsert_def put_def split: option.splits)
  assume "x \<in> set (stored c')"
  with assms rc show "x \<in> set (stored c) \<or> fst (snd x) = d"
    by (auto simp: items_upsert_def put_def dest!: in_set_updateD split: option.splits)
qed

lemma item_replace_frame:
  assumes "item_replace co i pk d t pv c = (r, c')"
  shows "requests c' = requests c @ [Replace co i pk d t pv]"
    and "x \<in> set (stored c') \<Longrightarrow> x \<in> set (stored c) \<or> fst (snd x) = d"
proof -
  obtain e where rc: "receive (Replace co i pk d t pv) c =
      (e, c\<lparr> requests := requests c @ [Replace co i pk d t pv], faults := tl (faults c) \<rparr>)"
    by (rule receive_cases)
  from assms rc show "requests c' = requests c @ [Replace co i pk d t pv]"
    by (auto simp: item_replace_def put_def split: option.splits if_splits)
  assume "x \<in> set (stored c')"
  with assms rc show "x \<in> set (stored c) \<or> fst (snd x) = d"
    by (auto simp: item_replace_def put_def dest!: in_set_updateD in_set_deleteD
        split: option.splits if_splits)
qed

lemmas writeKey_unfold =
  writeKey_def Let_def upsertDocument_def replaceDocument_def

lemma formatPartitionKeyValue_cong:
  assumes "settings this' = settings this" and "settingsHeap w' = settingsHeap w"
  shows "formatPartitionKeyValue this' w' = formatPartitionKeyValue this w"
  unfolding formatPartitionKeyValue_def this_settings_def using assms
  by (simp split: option.splits)

lemma writeKey_settingsHeap:
  "writeKey L this changes k w = (r, w') \<Longrightarrow> settingsHeap w' = settingsHeap w"
  by (auto simp: writeKey_unfold split: option.splits if_splits prod.splits sum.splits)

lemma writeKey_itemHeap:
  assumes "writeKey L this changes k w = (r, w')"
  shows "length (itemHeap w) \<le> length (itemHeap w')"
    and "a0 < length (itemHeap w) \<Longrightarrow> itemHeap w' ! a0 = itemHeap w ! a0"
  using assms
  by (auto simp: writeKey_unfold nth_append split: option.splits if_splits prod.splits sum.splits)

lemma writeKey_requests:
  assumes "writeKey L this changes k w = (r, w')"
    and "\<And>a. map_of changes k = Some a \<Longrightarrow> a < length (itemHeap w) \<and> itemHeap w ! a = h0 ! a"
    and "envelopeKept (formatPartitionKeyValue this w)"
  shows "\<exists>new. requests (service w') = requests (service w) @ new \<and> list_all (strippedCopy changes h0) new"
  using assms
  by (auto simp: writeKey_unfold nth_append strippedCopy_def spreadDocument_literal
      dest!: items_upsert_frame(1) item_replace_frame(1)
      split: option.splits if_splits prod.splits sum.splits)

lemma writeKey_untagged:
  assumes "writeKey L this changes k w = (r, w')"
  shows "\<exists>new. requests (service w') = requests (service w) @ new \<and> list_all sendsUntagged new"
  using assms
  by (auto simp: writeKey_unfold nth_append sendsUntagged_def
      dest!: items_upsert_frame(1) item_replace_frame(1)
      split: option.splits if_splits prod.splits sum.splits)

lemma writeKey_stored:
  assumes "writeKey L this changes k w = (r, w')" and "x \<in> set (stored (service w'))"
  shows "x \<in> set (stored (service w)) \<or> payloadUntagged x"
  using assms
  by (auto simp: writeKey_unfold nth_append payloadUntagged_def
      dest: items_upsert_frame(2) item_replace_frame(2)
      split: option.splits if_splits prod.splits sum.splits)

lemma forEachKey_step:
  assumes "forEachKey f (k # ks) w = (rs, w')"
  obtains r w1 rs' where "f k w = (r, w1)" and "forEachKey f ks w1 = (rs', w')" and "rs = r # rs'"
  using assms by (auto split: prod.splits)

text \<open>What a sequence of per-key callbacks sends is what each of them sends, in order.\<close>

lemma forEachKey_sent:
  assumes step: "\<And>k w r w'. f k w = (r, w') \<Longrightarrow>
                   \<exists>new. requests (service w') = requests (service w) @ new \<and> list_all Q new"
    and run: "forEachKey f ks w = (rs, w')"
  shows "\<exists>new. requests (service w') = requests (service w) @ new \<and> list_all Q new"
  using run
proof (induction ks arbitrary: w rs)
  case Nil
  then show ?case by simp
next
  case (Cons k ks)
  from Cons.prems obtain r w1 rs' where one: "f k w = (r, w1)"
    and rest: "forEachKey f ks w1 = (rs', w')"
    by (rule forEachKey_step)
  from step [OF one] obtain new1 where n1: "requests (service w1) = requests (service w) @ new1"
    and q1: "list_all Q new1" by blast
  from Cons.IH [OF rest] obtain new2 where n2: "requests (service w') = requests (service w1) @ new2"
    and q2: "list_all Q new2" by blast
  have "requests (service w') = requests (service w) @ (new1 @ new2)" using n1 n2 by simp
  moreover have "list_all Q (new1 @ new2)" using q1 q2 by simp
  ultimately show ?case by blast
qed

lemma write_keys_settingsHeap:
  "forEachKey (writeKey L this changes) ks w = (rs, w') \<Longrightarrow> settingsHeap w' = settingsHeap w"
proof (induction ks arbitrary: w rs)
  case Nil
  then show ?case by simp
next
  case (Cons k ks)
  from Cons.prems obtain r w1 rs' where step: "writeKey L this changes k w = (r, w1)"
    and rest: "forEachKey (writeKey L this changes) ks w1 = (rs', w')"
    by (rule forEachKey_step)
  from Cons.IH [OF rest] writeKey_settingsHeap [OF step] show ?case by simp
qed

lemma write_keys_itemHeap:
  "forEachKey (writeKey L this changes) ks w = (rs, w') \<Longrightarrow>
   length (itemHeap w) \<le> length (itemHeap w') \<and>
   (\<forall>a < length (itemHeap w). itemHeap w' ! a = itemHeap w ! a)"
proof (induction ks arbitrary: w rs)
  case Nil
  then show ?case by simp
next
  case (Cons k ks)
  from Cons.prems obtain r w1 rs' where step: "writeKey L this changes k w = (r, w1)"
    and rest: "forEachKey (writeKey L this changes) ks w1 = (rs', w')"
    by (rule forEachKey_step)
  note ih = Cons.IH [OF rest]
  have l: "length (itemHeap w) \<le> length (itemHeap w1)"
    by (rule writeKey_itemHeap(1) [OF step])
  have "length (itemHeap w) \<le> length (itemHeap w')"
    using l ih [THEN conjunct1] by (rule order_trans)
  moreover have "\<forall>a < length (itemHeap w). itemHeap w' ! a = itemHeap w ! a"
  proof (intro allI impI)
    fix a
    assume a: "a < length (itemHeap w)"
    with l have "a < length (itemHeap w1)" by simp
    with ih have "itemHeap w' ! a = itemHeap w1 ! a" by simp
    also from a have "\<dots> = itemHeap w ! a" by (rule writeKey_itemHeap(2) [OF step])
    finally show "itemHeap w' ! a = itemHeap w ! a" .
  qed
  ultimately show ?case by (rule conjI)
qed

lemma write_keys_requests:
  assumes "forEachKey (writeKey L this changes) ks w = (rs, w')"
    and "\<forall>k a. map_of changes k = Some a \<longrightarrow> a < length h0"
    and "length h0 \<le> length (itemHeap w)"
    and "\<forall>a < length h0. itemHeap w ! a = h0 ! a"
    and "envelopeKept (formatPartitionKeyValue this w)"
  shows "\<exists>new. requests (service w') = requests (service w) @ new \<and> list_all (strippedCopy changes h0) new"
  using assms(1,3,4,5)
proof (induction ks arbitrary: w rs)
  case Nil
  then show ?case by simp
next
  case (Cons k ks)
  from Cons.prems(1) obtain r w1 rs' where step: "writeKey L this changes k w = (r, w1)"
    and rest: "forEachKey (writeKey L this changes) ks w1 = (rs', w')"
    by (rule forEachKey_step)
  have valid: "\<And>a. map_of changes k = Some a \<Longrightarrow> a < length (itemHeap w) \<and> itemHeap w ! a = h0 ! a"
    using assms(2) Cons.prems(2,3) by force
  from writeKey_requests [OF step valid Cons.prems(4)] obtain new1
    where new1: "requests (service w1) = requests (service w) @ new1"
      and ok1: "list_all (strippedCopy changes h0) new1"
    by blast
  have len1: "length h0 \<le> length (itemHeap w1)"
    using Cons.prems(2) writeKey_itemHeap(1) [OF step] by (rule order_trans)
  have same1: "\<forall>a < length h0. itemHeap w1 ! a = h0 ! a"
  proof (intro allI impI)
    fix a
    assume a: "a < length h0"
    with Cons.prems(2) have "a < length (itemHeap w)" by simp
    then have "itemHeap w1 ! a = itemHeap w ! a" by (rule writeKey_itemHeap(2) [OF step])
    with a Cons.prems(3) show "itemHeap w1 ! a = h0 ! a" by simp
  qed
  have "formatPartitionKeyValue this w1 = formatPartitionKeyValue this w"
    by (rule formatPartitionKeyValue_cong [OF refl writeKey_settingsHeap [OF step]])
  with Cons.prems(4) have kept1: "envelopeKept (formatPartitionKeyValue this w1)" by simp
  from Cons.IH [OF rest len1 same1 kept1] obtain new2
    where new2: "requests (service w') = requests (service w1) @ new2"
      and ok2: "list_all (strippedCopy changes h0) new2"
    by blast
  have "requests (service w') = requests (service w) @ (new1 @ new2)"
    using new1 new2 by simp
  moreover have "list_all (strippedCopy changes h0) (new1 @ new2)"
    using ok1 ok2 by simp
  ultimately show ?case by blast
qed

lemma write_keys_stored:
  assumes "forEachKey (writeKey L this changes) ks w = (rs, w')" and "x \<in> set (stored (service w'))"
  shows "x \<in> set (stored (service w)) \<or> payloadUntagged x"
  using assms
proof (induction ks arbitrary: w rs)
  case Nil
  then show ?case by simp
next
  case (Cons k ks)
  from Cons.prems(1) obtain r w1 rs' where step: "writeKey L this changes k w = (r, w1)"
    and rest: "forEachKey (writeKey L this changes) ks w1 = (rs', w')"
    by (rule forEachKey_step)
  from Cons.IH [OF rest Cons.prems(2)] have "x \<in> set (stored (service w1)) \<or> payloadUntagged x" .
  then show ?case
  proof
    assume "x \<in> set (stored (service w1))"
    with step show ?thesis by (rule writeKey_stored)
  next
    assume "payloadUntagged x"
    then show ?thesis by (rule disjI2)
  qed
qed

lemma provisioning_strippedCopy: "provisioning rq \<Longrightarrow> strippedCopy changes h rq"
  by (cases rq) (simp_all add: strippedCopy_def)

lemma provisioning_sendsUntagged: "provisioning rq \<Longrightarrow> sendsUntagged rq"
  by (cases rq) (simp_all add: sendsUntagged_def)

lemma ensureContainerExists_settings:
  assumes "ensureContainerExists L this w = (r, this1, w1)"
  shows "settings this1 = settings this"
  using assms
  by (auto simp: ensureContainerExists_def getOrCreateDatabase_def getOrCreateContainer_def Let_def
      split: prod.splits sum.splits option.splits if_splits)

text \<open>
  Whatever the store's settings, a write leaves every item that existed before it, the
  caller's items among them, as it was (version tag included); no request it sends
  carries a payload with a version tag; and every stored document that it put there
  has a payload with no version tag.
\<close>

lemma write_leaves_items_and_sends_untagged:
  assumes run: "writeChanges L this (Some changes) w = (r, settled, this', w')"
  shows "(\<forall>a < length (itemHeap w). itemHeap w' ! a = itemHeap w ! a) \<and>
         list_all sendsUntagged (sentBetween w w') \<and>
         (\<forall>x \<in> set (stored (service w')). x \<in> set (stored (service w)) \<or> payloadUntagged x)"
proof (cases "changes = []")
  case True
  with run show ?thesis by (simp add: writeChanges_def sentBetween_def)
next
  case False
  obtain r1 this1 w1 where ens: "ensureContainerExists L this w = (r1, this1, w1)"
    by (metis prod_cases3)
  note fr = ensureContainerExists_frame [OF ens]
  from fr(4) obtain new1 where new1: "requests (service w1) = requests (service w) @ new1"
    and prov: "list_all provisioning new1" by blast
  have sc1: "list_all sendsUntagged new1"
    using prov by (simp add: list_all_iff provisioning_sendsUntagged)
  show ?thesis
  proof (cases r1)
    case (Inl e)
    with run ens False have "w' = w1" by (simp add: writeChanges_def)
    with fr new1 sc1 show ?thesis by (simp add: sentBetween_def)
  next
    case (Inr u)
    with run ens False have keys: "forEachKey (writeKey L this1 changes) (map fst changes) w1 = (settled, w')"
      by (auto simp: writeChanges_def split: prod.splits)
    have "\<exists>new. requests (service w') = requests (service w1) @ new \<and> list_all sendsUntagged new"
      using keys by (rule forEachKey_sent [rotated]) (rule writeKey_untagged)
    then obtain new2
      where new2: "requests (service w') = requests (service w1) @ new2"
        and sc2: "list_all sendsUntagged new2"
      by blast
    have "sentBetween w w' = new1 @ new2"
      using new1 new2 by (simp add: sentBetween_def)
    with sc1 sc2 have b: "list_all sendsUntagged (sentBetween w w')" by simp
    have a: "\<forall>a < length (itemHeap w). itemHeap w' ! a = itemHeap w ! a"
      using write_keys_itemHeap [OF keys] fr(1) by simp
    have c: "\<forall>x \<in> set (stored (service w')). x \<in> set (stored (service w)) \<or> payloadUntagged x"
      using write_keys_stored [OF keys] fr(3) by auto
    from a b c show ?thesis by (intro conjI)
  qed
qed

text \<open>
  In a store whose partition property keeps the envelope, every document a write sends
  to be persisted is the caller's item for the document's key without its version tag.
\<close>

lemma write_sends_stripped_copies:
  assumes valid: "\<forall>(k, a) \<in> set changes. a < length (itemHeap w)"
    and kept: "envelopeKept (formatPartitionKeyValue this w)"
    and run: "writeChanges L this (Some changes) w = (r, settled, this', w')"
  shows "list_all (strippedCopy changes (itemHeap w)) (sentBetween w w')"
proof (cases "changes = []")
  case True
  with run show ?thesis by (simp add: writeChanges_def sentBetween_def)
next
  case False
  obtain r1 this1 w1 where ens: "ensureContainerExists L this w = (r1, this1, w1)"
    by (metis prod_cases3)
  note fr = ensureContainerExists_frame [OF ens]
  from fr(4) obtain new1 where new1: "requests (service w1) = requests (service w) @ new1"
    and prov: "list_all provisioning new1" by blast
  have sc1: "list_all (strippedCopy changes (itemHeap w)) new1"
    using prov by (simp add: list_all_iff provisioning_strippedCopy)
  have valid': "\<forall>k a. map_of changes k = Some a \<longrightarrow> a < length (itemHeap w)"
    using valid by (auto dest: map_of_SomeD)
  have "formatPartitionKeyValue this1 w1 = formatPartitionKeyValue this w"
    using ensureContainerExists_settings [OF ens] fr(2) by (rule formatPartitionKeyValue_cong)
  with kept have kept1: "envelopeKept (formatPartitionKeyValue this1 w1)" by simp
  show ?thesis
  proof (cases r1)
    case (Inl e)
    with run ens False have "w' = w1" by (simp add: writeChanges_def)
    with new1 sc1 show ?thesis by (simp add: sentBetween_def)
  next
    case (Inr u)
    with run ens False have keys: "forEachKey (writeKey L this1 changes) (map fst changes) w1 = (settled, w')"
      by (auto simp: writeChanges_def split: prod.splits)
    have len: "length (itemHeap w) \<le> length (itemHeap w1)" and same: "\<forall>a < length (itemHeap w). itemHeap w1 ! a = itemHeap w ! a"
      using fr(1) by simp_all
    from write_keys_requests [OF keys valid' len same kept1] obtain new2
      where new2: "requests (service w') = requests (service w1) @ new2"
        and sc2: "list_all (strippedCopy changes (itemHeap w)) new2"
      by blast
    have "sentBetween w w' = new1 @ new2"
      using new1 new2 by (simp add: sentBetween_def)
    with sc1 sc2 show ?thesis by simp
  qed
qed

text \<open>
  Claim C6 says that for every entry in a write the stored record is built from a copy
  of the caller's item without its version tag. The copy is made and the caller's item
  is left as it was, but the partition property is spread into the record after the
  copy: in a store built with the partition key \<^verbatim>\<open>document\<close>, which the
  constructor accepts, it replaces the copy, and what is persisted under the key is the
  partition value; the content of the caller's item is not stored.
\<close>

theorem write_persists_partition_value_as_document:
  "constructor exampleLib (Some 0) None
     [exampleSettings\<lparr> partitionKey := Some ''document'', partitionValue := Some ''bots'' \<rparr>] =
     (Inr (freshStore\<lparr> settings := 1 \<rparr>),
      [exampleSettings\<lparr> partitionKey := Some ''document'', partitionValue := Some ''bots'' \<rparr>,
       exampleSettings\<lparr> partitionKey := Some ''/document'', partitionValue := Some ''bots'' \<rparr>]) \<and>
   writeChanges exampleLib (freshStore\<lparr> settings := 1 \<rparr>) (Some [(''k'', 0)])
     \<lparr> settingsHeap =
         [exampleSettings\<lparr> partitionKey := Some ''document'', partitionValue := Some ''bots'' \<rparr>,
          exampleSettings\<lparr> partitionKey := Some ''/document'', partitionValue := Some ''bots'' \<rparr>],
       itemHeap = [\<lparr> eTag = None, props = [(''count'', JNum 2)] \<rparr>],
       service = \<lparr> requests = [], stored = [], revision = 0, faults = [] \<rparr> \<rparr> =
     (Inr (), [Inr ()],
      freshStore\<lparr> settings := 1, database := Some (DatabaseHandle ''test-db''),
                  container := Some exampleContainer \<rparr>,
      \<lparr> settingsHeap =
          [exampleSettings\<lparr> partitionKey := Some ''document'', partitionValue := Some ''bots'' \<rparr>,
           exampleSettings\<lparr> partitionKey := Some ''/document'', partitionValue := Some ''bots'' \<rparr>],
        itemHeap = [\<lparr> eTag = None, props = [(''count'', JNum 2)] \<rparr>,
                    \<lparr> eTag = None, props = [(''count'', JNum 2)] \<rparr>],
        service =
          \<lparr> requests =
              [CreateDatabase ''test-db'' None,
               CreateContainer (DatabaseHandle ''test-db'') ''bot-storage'' (Some ''/document'') None,
               Upsert exampleContainer
                 \<lparr> id_field = ''k'', realId = ''k'', document = Scalar ''bots'', partitionProperty = None \<rparr>],
            stored =
              [(''k'',
                \<lparr> id_field = ''k'', realId = ''k'', document = Scalar ''bots'', partitionProperty = None \<rparr>,
                etag_of 0)],
            revision = 1, faults = [] \<rparr> \<rparr>)"
proof (rule conjI)
  show "constructor exampleLib (Some 0) None
     [exampleSettings\<lparr> partitionKey := Some ''document'', partitionValue := Some ''bots'' \<rparr>] =
     (Inr (freshStore\<lparr> settings := 1 \<rparr>),
      [exampleSettings\<lparr> partitionKey := Some ''document'', partitionValue := Some ''bots'' \<rparr>,
       exampleSettings\<lparr> partitionKey := Some ''/document'', partitionValue := Some ''bots'' \<rparr>])"
    by (simp add: constructor_def validate_def missing_def trim_def whitespace_def Let_def
        exampleSettings_def exampleLib_def freshStore_def exampleClient_def orEmpty_def
        normalizePartitionKey_def blankHas_def blankDocumentStoreItem_def)
next
  show "writeChanges exampleLib (freshStore\<lparr> settings := 1 \<rparr>) (Some [(''k'', 0)])
     \<lparr> settingsHeap =
         [exampleSettings\<lparr> partitionKey := Some ''document'', partitionValue := Some ''bots'' \<rparr>,
          exampleSettings\<lparr> partitionKey := Some ''/document'', partitionValue := Some ''bots'' \<rparr>],
       itemHeap = [\<lparr> eTag = None, props = [(''count'', JNum 2)] \<rparr>],
       service = \<lparr> requests = [], stored = [], revision = 0, faults = [] \<rparr> \<rparr> =
     (Inr (), [Inr ()],
      freshStore\<lparr> settings := 1, database := Some (DatabaseHandle ''test-db''),
                  container := Some exampleContainer \<rparr>,
      \<lparr> settingsHeap =
          [exampleSettings\<lparr> partitionKey := Some ''document'', partitionValue := Some ''bots'' \<rparr>,
           exampleSettings\<lparr> partitionKey := Some ''/document'', partitionValue := Some ''bots'' \<rparr>],
        itemHeap = [\<lparr> eTag = None, props = [(''count'', JNum 2)] \<rparr>,
                    \<lparr> eTag = None, props = [(''count'', JNum 2)] \<rparr>],
        service =
          \<lparr> requests =
              [CreateDatabase ''test-db'' None,
               CreateContainer (DatabaseHandle ''test-db'') ''bot-storage'' (Some ''/document'') None,
               Upsert exampleContainer
                 \<lparr> id_field = ''k'', realId = ''k'', document = Scalar ''bots'', partitionProperty = None \<rparr>],
            stored =
              [(''k'',
                \<lparr> id_field = ''k'', realId = ''k'', document = Scalar ''bots'', partitionProperty = None \<rparr>,
                etag_of 0)],
            revision = 1, faults = [] \<rparr> \<rparr>)"
    by (simp add: writeChanges_def ensureContainerExists_def getOrCreateDatabase_def
        getOrCreateContainer_def databases_createIfNotExists_def containers_createIfNotExists_def
        receive_def Let_def freshStore_def this_settings_def exampleSettings_def orEmpty_def)
       (simp add: exampleLib_def exampleContainer_def exampleClient_def
        writeKey_def Let_def upsertDocument_def items_upsert_def receive_def
        spreadDocument_def put_def formatPartitionKeyValue_def this_settings_def orEmpty_def)
qed

section \<open>Deleting\<close>

text \<open>
  One key of a delete, given the service's answer to the point-delete: a success and a
  not-found response (code 404) both resolve the key's promise; any other failure
  rejects it with what \<^verbatim>\<open>throw this.errWithNewMessage(err, 'Unable to delete document')\<close>
  throws. Deleting a key that has no stored document, the request being served, gets
  the not-found response and changes nothing.
\<close>

lemma delete_key_outcomes:
  assumes "container this = Some co"
    and "item_delete co (escapeKey L k) (partitionKey (this_settings this w))
           (partitionValue (this_settings this w)) (service w) = (answer, c1)"
  shows "(answer = Inr () \<longrightarrow> deleteKey L this k w = (Inr (), w\<lparr> service := c1 \<rparr>)) \<and>
         (\<forall>err. answer = Inl err \<and> err_code err = Some (JNum 404) \<longrightarrow>
            deleteKey L this k w = (Inr (), w\<lparr> service := c1 \<rparr>)) \<and>
         (\<forall>err. answer = Inl err \<and> err_code err \<noteq> Some (JNum 404) \<longrightarrow>
            deleteKey L this k w =
              (Inl (throwWithNewMessage L err ''Unable to delete document''), w\<lparr> service := c1 \<rparr>)) \<and>
         (nextFault (service w) = None \<and> map_of (stored (service w)) (escapeKey L k) = None \<longrightarrow>
            answer = Inl (statusResponse 404) \<and> stored c1 = stored (service w))"
  using assms
  by (auto simp: deleteKey_def item_delete_def receive_served statusResponse_def
      split: option.splits)

text \<open>
  What is thrown is the delete error, whose message starts with
  \<^verbatim>\<open>Unable to delete document\<close> and whose original is the failure, when the
  failure is an \<^verbatim>\<open>Error\<close>, a string, or a response without a body or with
  a body that parses.
\<close>

lemma delete_error_wraps_parsed_failure:
  assumes "\<forall>fs body. err = Response fs \<and> map_of fs ''body'' = Some body \<and> truthy (Some body) \<longrightarrow>
             (\<exists>m. JSON_parse_message L body = Inr m)"
  shows "\<exists>rest c. throwWithNewMessage L err ''Unable to delete document'' =
           Err (''Unable to delete document: '' @ rest) c
             (case err of Err m c0 orig \<Rightarrow> Itself | Response fs \<Rightarrow> Cause err
              | Text s \<Rightarrow> if s = [] then Itself else Cause err)"
proof (cases "errWithNewMessage L err ''Unable to delete document''")
  case (Inl x)
  from errWithNewMessage_throws [OF Inl] assms show ?thesis by auto
next
  case (Inr e')
  from errWithNewMessage_returns [OF Inr] Inr show ?thesis
    by (simp add: throwWithNewMessage_def)
qed

lemma delete_key_wraps_text_failure:
  "fst (deleteKey exampleLib readyStore ''k'' (exampleWorld [] [Some (Text ''ECONNRESET'')])) =
     Inl (Err (''Unable to delete document: '' @ dquote ''ECONNRESET'') None (Cause (Text ''ECONNRESET'')))"
  by (simp add: example_defs deleteKey_def item_delete_def receive_def this_settings_def
      throwWithNewMessage_def renderJson_string)

lemma delete_key_absent_resolves:
  "deleteKey exampleLib readyStore ''j'' (exampleWorld [] []) =
     (Inr (), (exampleWorld [] [])\<lparr> service := (service (exampleWorld [] []))
                \<lparr> requests := [Delete exampleContainer ''j'' None (Some [])] \<rparr> \<rparr>)"
  by (simp add: example_defs deleteKey_def item_delete_def receive_def this_settings_def
      statusResponse_def)

text \<open>
  Claim C8 says that a not-found response to a per-key delete is treated as success,
  and that every other failure is wrapped as the delete error. The first holds. For the
  second, the code passes the failure to \<^verbatim>\<open>errWithNewMessage\<close>, which parses
  the failure's body: when the service fails with a body that is not JSON text, the
  parsing throws, and the key's promise rejects with that \<^verbatim>\<open>SyntaxError\<close>,
  which has neither the delete message nor the failure as its original.
\<close>

theorem delete_key_rethrows_parse_failure:
  "deleteKey exampleLib readyStore ''k'' (exampleWorld [] [Some serviceUnavailable]) =
     (Inl exampleSyntaxError,
      \<lparr> settingsHeap = [exampleSettings\<lparr> partitionValue := Some [] \<rparr>],
        itemHeap = [],
        service = \<lparr> requests = [Delete exampleContainer ''k'' None (Some [])],
                    stored = [(''k'', exampleDocument ''k'' 1, etag_of 0)],
                    revision = 1, faults = [] \<rparr> \<rparr>)"
  by (simp add: example_defs deleteKey_def item_delete_def receive_def this_settings_def
      throwWithNewMessage_def serviceUnavailable_def)

section \<open>The order of the requests\<close>

lemma writeKey_sends_data:
  assumes "writeKey L this changes k w = (r, w')"
  shows "\<exists>new. requests (service w') = requests (service w) @ new \<and>
           list_all (\<lambda>rq. \<not> provisioning rq) new"
  using assms
  by (auto simp: writeKey_unfold
      dest!: items_upsert_frame(1) item_replace_frame(1)
      split: option.splits if_splits prod.splits sum.splits)

lemma item_delete_frame:
  assumes "item_delete co i pk pv c = (r, c')"
  shows "requests c' = requests c @ [Delete co i pk pv]"
proof -
  obtain e where rc: "receive (Delete co i pk pv) c =
      (e, c\<lparr> requests := requests c @ [Delete co i pk pv], faults := tl (faults c) \<rparr>)"
    by (rule receive_cases)
  with assms show ?thesis
    by (auto simp: item_delete_def split: option.splits)
qed

lemma deleteKey_sends_data:
  assumes "deleteKey L this k w = (r, w')"
  shows "\<exists>new. requests (service w') = requests (service w) @ new \<and>
           list_all (\<lambda>rq. \<not> provisioning rq) new"
  using assms
  by (auto simp: deleteKey_def dest!: item_delete_frame
      split: option.splits if_splits prod.splits sum.splits)

lemma items_query_frame:
  assumes "items_query co spec pv c = (r, c')"
  shows "requests c' = requests c @ [Query co spec pv]"
proof -
  obtain e where rc: "receive (Query co spec pv) c =
      (e, c\<lparr> requests := requests c @ [Query co spec pv], faults := tl (faults c) \<rparr>)"
    by (rule receive_cases)
  with assms show ?thesis
    by (auto simp: items_query_def split: option.splits)
qed

text \<open>
  Every operation on a non-empty input first runs the provisioning step; what it sends
  is what that step sends, all provisioning requests, followed by data requests.
\<close>

lemma read_provisions_first:
  assumes "keys \<noteq> []" and "ensureContainerExists L this w = (r1, this1, w1)"
    and "read L this (Some keys) w = (r, this', w')"
  shows "this' = this1 \<and>
         (\<exists>data. sentBetween w w' = sentBetween w w1 @ data \<and>
            list_all provisioning (sentBetween w w1) \<and> list_all (\<lambda>rq. \<not> provisioning rq) data)"
proof -
  from ensureContainerExists_frame(4) [OF assms(2)] obtain new
    where new: "requests (service w1) = requests (service w) @ new" and p: "list_all provisioning new"
    by blast
  have "this' = this1 \<and> (\<exists>data. requests (service w') = requests (service w1) @ data \<and>
          list_all (\<lambda>rq. \<not> provisioning rq) data)"
    using assms
    by (auto simp: read_def Let_def dest!: items_query_frame
        split: sum.splits option.splits prod.splits)
  with new p show ?thesis by (auto simp: sentBetween_def)
qed

lemma write_provisions_first:
  assumes "changes \<noteq> []" and "ensureContainerExists L this w = (r1, this1, w1)"
    and "writeChanges L this (Some changes) w = (r, settled, this', w')"
  shows "this' = this1 \<and>
         (\<exists>data. sentBetween w w' = sentBetween w w1 @ data \<and>
            list_all provisioning (sentBetween w w1) \<and> list_all (\<lambda>rq. \<not> provisioning rq) data)"
proof -
  from ensureContainerExists_frame(4) [OF assms(2)] obtain new
    where new: "requests (service w1) = requests (service w) @ new" and p: "list_all provisioning new"
    by blast
  have "this' = this1 \<and> (\<exists>data. requests (service w') = requests (service w1) @ data \<and>
          list_all (\<lambda>rq. \<not> provisioning rq) data)"
  proof (cases r1)
    case (Inl e)
    with assms show ?thesis by (simp add: writeChanges_def)
  next
    case (Inr u)
    with assms have keys: "forEachKey (writeKey L this1 changes) (map fst changes) w1 = (settled, w')"
      and "this' = this1"
      by (auto simp: writeChanges_def split: prod.splits)
    with forEachKey_sent [of "writeKey L this1 changes" "\<lambda>rq. \<not> provisioning rq", OF writeKey_sends_data keys]
    show ?thesis by simp
  qed
  with new p show ?thesis by (auto simp: sentBetween_def)
qed

lemma delete_provisions_first:
  assumes "keys \<noteq> []" and "ensureContainerExists L this w = (r1, this1, w1)"
    and "delete L this (Some keys) w = (r, settled, this', w')"
  shows "this' = this1 \<and>
         (\<exists>data. sentBetween w w' = sentBetween w w1 @ data \<and>
            list_all provisioning (sentBetween w w1) \<and> list_all (\<lambda>rq. \<not> provisioning rq) data)"
proof -
  from ensureContainerExists_frame(4) [OF assms(2)] obtain new
    where new: "requests (service w1) = requests (service w) @ new" and p: "list_all provisioning new"
    by blast
  have "this' = this1 \<and> (\<exists>data. requests (service w') = requests (service w1) @ data \<and>
          list_all (\<lambda>rq. \<not> provisioning rq) data)"
  proof (cases r1)
    case (Inl e)
    with assms show ?thesis by (simp add: delete_def)
  next
    case (Inr u)
    with assms have keys: "forEachKey (deleteKey L this1) keys w1 = (settled, w')"
      and "this' = this1"
      by (auto simp: delete_def split: prod.splits)
    with forEachKey_sent [of "deleteKey L this1" "\<lambda>rq. \<not> provisioning rq", OF deleteKey_sends_data keys]
    show ?thesis by simp
  qed
  with new p show ?thesis by (auto simp: sentBetween_def)
qed

end
